theory Spec2Isabelle
  imports Main "HOL-Library.Word" "HOL-Library.DAList" "HOL-Library.List_Lexorder"
    "HOL-Library.Char_ord"
begin

section \<open>Data model (api/models)\<close>

text \<open>
  Go's \<open>int\<close> is a two's-complement machine integer; on the 64-bit targets the
  program is built for it has 64 bits. \<open>+\<close> and \<open>-\<close> wrap around, comparisons are
  signed (\<open><s\<close>, \<open>\<le>s\<close>), and \<open>sint\<close> reads the mathematical value.
\<close>

type_synonym go_int = "64 word"

text \<open>
  A Go \<open>map[string]*T\<close> is a finite map with pairwise distinct keys. It is modelled
  as a distinct association list: \<open>DAList.lookup\<close> is \<open>m[k]\<close> with its \<open>ok\<close>
  flag, \<open>DAList.update\<close> is \<open>m[k] = v\<close>, \<open>DAList.impl_of\<close> lists the entries
  that a \<open>range\<close> loop visits, in one of the orders Go may choose. The one
  \<open>range\<close> loop that computes something, in the \<open>AddPrintJob\<close> case, subtracts
  weights, so its result is the same in every order. Every pointer stored in one of
  the maps comes from a freshly decoded command and is stored under one key only, so
  the objects are not shared and writing through a stored pointer is an update of that
  one entry.
\<close>

type_synonym 'v go_map = "(string, 'v) alist"

text \<open>
  Modelled from the spec: the declaration of \<open>models.Printer\<close> is not among the
  sources. The spec gives a device an id, a manufacturer and a model label; the code
  only ever reads the \<open>ID\<close> field.
\<close>

record Printer =
  ID :: string
  Company :: string
  Model :: string

record Filament =
  ID :: string
  Type :: string
  Color :: string
  TotalWeightInGrams :: go_int
  RemainingWeightInGrams :: go_int

record PrintJob =
  ID :: string
  PrinterID :: string
  FilamentID :: string
  Filepath :: string
  PrintWeightInGrams :: go_int
  Status :: string

record Command =
  Type :: string
  Printer :: "Printer option"
  Filament :: "Filament option"
  PrintJob :: "PrintJob option"
  JobID :: string
  NewStatus :: string

definition AddPrinter :: string where "AddPrinter = ''ADD_PRINTER''"
definition AddFilament :: string where "AddFilament = ''ADD_FILAMENT''"
definition AddPrintJob :: string where "AddPrintJob = ''ADD_PRINT_JOB''"
definition UpdatePrintJob :: string where "UpdatePrintJob = ''UPDATE_PRINT_JOB''"

section \<open>Formatting integers (fmt, verb d)\<close>

text \<open>The decimal digits of a number that is not negative, and \<open>%d\<close> with its sign.\<close>

definition digit_char :: "int \<Rightarrow> char" where
  "digit_char d = char_of (48 + d)"

function digits :: "int \<Rightarrow> string" where
  "digits n = (if n < 10 then [digit_char n] else digits (n div 10) @ [digit_char (n mod 10)])"
  by pat_completeness auto
termination
  by (relation "measure nat") auto

declare digits.simps [simp del]

definition fmt_d :: "int \<Rightarrow> string" where
  "fmt_d i = (if i < 0 then CHR ''-'' # digits (- i) else digits i)"

section \<open>Scanning integers (fmt.Sscanf, verb d)\<close>

definition is_digit :: "char \<Rightarrow> bool" where
  "is_digit c = (48 \<le> (of_char c :: nat) \<and> (of_char c :: nat) \<le> 57)"

definition digit_val :: "char \<Rightarrow> int" where
  "digit_val c = of_char c - 48"

definition decimal :: "string \<Rightarrow> int" where
  "decimal ds = foldl (\<lambda>a c. 10 * a + digit_val c) 0 ds"

text \<open>
  \<open>isSpace\<close> of fmt/scan.go on UTF-8 input: the number of bytes of the space
  character at the head of the input, 0 when there is none. The newline is not in the
  list; \<open>SkipSpace\<close> deals with it first.
\<close>

definition space_width :: "string \<Rightarrow> nat" where
  "space_width s =
     (case map of_char (take 3 s) :: nat list of
        [] \<Rightarrow> 0
      | b1 # bs \<Rightarrow>
          if b1 = 9 \<or> b1 = 11 \<or> b1 = 12 \<or> b1 = 13 \<or> b1 = 32 then 1
          else if b1 = 0xC2 \<and> (take 1 bs = [0x85] \<or> take 1 bs = [0xA0]) then 2
          else if b1 = 0xE1 \<and> bs = [0x9A, 0x80] then 3
          else if b1 = 0xE2 \<and> take 1 bs = [0x80] \<and> length bs = 2 \<and>
                  ((0x80 \<le> bs ! 1 \<and> bs ! 1 \<le> 0x8A) \<or> bs ! 1 = 0xA8 \<or> bs ! 1 = 0xA9 \<or> bs ! 1 = 0xAF)
               then 3
          else if b1 = 0xE2 \<and> bs = [0x81, 0x9F] then 3
          else if b1 = 0xE3 \<and> bs = [0x80, 0x80] then 3
          else 0)"

function SkipSpace :: "string \<Rightarrow> string + string" where
  "SkipSpace s =
     (case s of
        [] \<Rightarrow> Inr []
      | c # cs \<Rightarrow>
          if c = CHR 0x0D \<and> take 1 cs = [CHR 0x0A] then SkipSpace cs
          else if c = CHR 0x0A then Inl ''unexpected newline''
          else if 0 < space_width s then SkipSpace (drop (space_width s - 1) cs)
          else Inr s)"
  by pat_completeness auto
termination
  by (relation "measure length") auto

declare SkipSpace.simps [simp del]

text \<open>\<open>strconv.ParseInt(tok, 10, 64)\<close>.\<close>

definition ParseInt :: "string \<Rightarrow> string + go_int" where
  "ParseInt tok =
     (let neg = (take 1 tok = ''-'');
          ds = (if take 1 tok = ''-'' \<or> take 1 tok = ''+'' then drop 1 tok else tok)
      in if ds = [] \<or> \<not> list_all is_digit ds then
           Inl (''strconv.ParseInt: parsing '' @ [CHR 0x22] @ tok @ [CHR 0x22] @ '': invalid syntax'')
         else if (if neg then decimal ds \<le> 2 ^ 63 else decimal ds < 2 ^ 63) then
           Inr (if neg then - word_of_int (decimal ds) else word_of_int (decimal ds))
         else Inl (''strconv.ParseInt: parsing '' @ [CHR 0x22] @ tok @ [CHR 0x22] @ '': value out of range''))"

text \<open>
  The verb \<open>%d\<close> of \<open>Sscanf\<close> on the input left for it: spaces are skipped, then an
  optional sign and the longest run of digits and underscores make the token. Input
  after the token is left unread.
\<close>

definition scan_d :: "string \<Rightarrow> string + go_int" where
  "scan_d input =
     (case SkipSpace input of
        Inl e \<Rightarrow> Inl e
      | Inr s \<Rightarrow>
          if s = [] then Inl ''unexpected EOF''
          else
            let sign = (if take 1 s = ''+'' \<or> take 1 s = ''-'' then take 1 s else []);
                s' = drop (length sign) s;
                tok = takeWhile (\<lambda>c. is_digit c \<or> c = CHR ''_'') s'
            in if s' = [] then Inl ''unexpected EOF''
               else if tok = [] then Inl ''expected integer''
               else ParseInt (sign @ tok))"

text \<open>\<open>fmt.Sscanf(input, lit + "%d", &v)\<close> for a literal \<open>lit\<close> without spaces or
  percent signs: the input has to start with the literal.\<close>

definition Sscanf_d :: "string \<Rightarrow> string \<Rightarrow> string + go_int" where
  "Sscanf_d input lit =
     (if length input < length lit then Inl ''unexpected EOF''
      else if take (length lit) input \<noteq> lit then Inl ''input does not match format''
      else scan_d (drop (length lit) input))"


section \<open>Errors\<close>

text \<open>
  One constructor for each error value the state machine builds; \<open>Error\<close> is the
  message text, as \<open>err.Error()\<close> returns it.
\<close>

datatype error =
    UnmarshalFailed string
  | PrinterIsNil
  | FilamentIsNil
  | PrintJobIsNil
  | NoSuchPrinter string
  | NoSuchFilament string
  | NotEnoughFilament go_int go_int
  | NoSuchPrintJob string
  | FromQueued
  | FromRunning
  | InvalidTransition
  | UnknownCommandType string

fun Error :: "error \<Rightarrow> string" where
  "Error (UnmarshalFailed e) = ''failed to unmarshal command: '' @ e"
| "Error PrinterIsNil = ''printer is nil''"
| "Error FilamentIsNil = ''filament is nil''"
| "Error PrintJobIsNil = ''print job is nil''"
| "Error (NoSuchPrinter i) = ''printer with ID '' @ i @ '' does not exist''"
| "Error (NoSuchFilament i) = ''filament with ID '' @ i @ '' does not exist''"
| "Error (NotEnoughFilament a r) =
     ''not enough filament remaining. Available: '' @ fmt_d (sint a) @ '' g, Required: ''
       @ fmt_d (sint r) @ '' g''"
| "Error (NoSuchPrintJob i) = ''print job with ID '' @ i @ '' does not exist''"
| "Error FromQueued = ''a job can only transition from Queued to Running or Canceled''"
| "Error FromRunning = ''a job can only transition from Running to Done or Canceled''"
| "Error InvalidTransition = ''invalid status transition''"
| "Error (UnknownCommandType t) = ''unknown command type: '' @ t"

text \<open>The errors of \<open>ValidateStatusChange\<close>: the transition is not allowed.\<close>

definition illegal_transition :: "error \<Rightarrow> bool" where
  "illegal_transition e = (e = FromQueued \<or> e = FromRunning \<or> e = InvalidTransition)"

section \<open>Status transitions (models.ValidateStatusChange)\<close>

definition ValidateStatusChange :: "string \<Rightarrow> string \<Rightarrow> error option" where
  "ValidateStatusChange currentStatus newStatus =
     (if currentStatus = ''Queued'' then
        (if newStatus \<noteq> ''Running'' \<and> newStatus \<noteq> ''Canceled'' then Some FromQueued else None)
      else if currentStatus = ''Running'' then
        (if newStatus \<noteq> ''Done'' \<and> newStatus \<noteq> ''Canceled'' then Some FromRunning else None)
      else Some InvalidTransition)"

definition IsValidPrintJobStatus :: "string \<Rightarrow> bool" where
  "IsValidPrintJobStatus status = (status \<in> set [''Queued'', ''Running'', ''Done'', ''Canceled''])"

section \<open>The state machine (raft/fsm.go)\<close>

text \<open>
  \<open>fsmSnapshot\<close> has the same three fields as \<open>FSM\<close>, without the lock. Its
  selectors are written \<open>fsmSnapshot.printers\<close>, \<open>fsmSnapshot.filaments\<close> and
  \<open>fsmSnapshot.printJobs\<close>.
\<close>

record fsmSnapshot =
  printers :: "Printer go_map"
  filaments :: "Filament go_map"
  printJobs :: "PrintJob go_map"

record FSM =
  printers :: "Printer go_map"
  filaments :: "Filament go_map"
  printJobs :: "PrintJob go_map"

definition NewFSM :: FSM where
  "NewFSM = \<lparr>printers = DAList.empty, filaments = DAList.empty, printJobs = DAList.empty\<rparr>"

text \<open>
  The loop of the \<open>AddPrintJob\<close> case: starting from the filament's remaining weight,
  every stored job on the same filament that is Queued or Running takes its weight off.
\<close>

definition reserves :: "string \<Rightarrow> PrintJob \<Rightarrow> bool" where
  "reserves filamentID job =
     (FilamentID job = filamentID \<and> (Status job = ''Queued'' \<or> Status job = ''Running''))"

definition availableWeight :: "FSM \<Rightarrow> Filament \<Rightarrow> string \<Rightarrow> go_int" where
  "availableWeight f filament filamentID =
     fold (\<lambda>(k, job) available.
             if reserves filamentID job then available - PrintWeightInGrams job else available)
          (DAList.impl_of (printJobs f)) (RemainingWeightInGrams filament)"

text \<open>
  \<open>Apply\<close> takes what \<open>json.Unmarshal\<close> makes of the log entry (\<open>Inl\<close> its error,
  \<open>Inr\<close> the decoded command) and returns the state it leaves with the value it
  returns (\<open>None\<close> is \<open>nil\<close>). The state is returned on every path, since the code
  writes to it before its last check.
\<close>

definition Apply :: "FSM \<Rightarrow> string + Command \<Rightarrow> FSM \<times> error option" where
  "Apply f data =
     (case data of
        Inl err \<Rightarrow> (f, Some (UnmarshalFailed err))
      | Inr cmd \<Rightarrow>
          if Command.Type cmd = AddPrinter then
            (case Command.Printer cmd of
               None \<Rightarrow> (f, Some PrinterIsNil)
             | Some p \<Rightarrow> (f\<lparr>printers := DAList.update (Printer.ID p) p (printers f)\<rparr>, None))
          else if Command.Type cmd = AddFilament then
            (case Command.Filament cmd of
               None \<Rightarrow> (f, Some FilamentIsNil)
             | Some fl \<Rightarrow> (f\<lparr>filaments := DAList.update (Filament.ID fl) fl (filaments f)\<rparr>, None))
          else if Command.Type cmd = AddPrintJob then
            (case Command.PrintJob cmd of
               None \<Rightarrow> (f, Some PrintJobIsNil)
             | Some pj \<Rightarrow>
                 (case DAList.lookup (printers f) (PrinterID pj) of
                    None \<Rightarrow> (f, Some (NoSuchPrinter (PrinterID pj)))
                  | Some _ \<Rightarrow>
                      (case DAList.lookup (filaments f) (FilamentID pj) of
                         None \<Rightarrow> (f, Some (NoSuchFilament (FilamentID pj)))
                       | Some filament \<Rightarrow>
                           let available = availableWeight f filament (FilamentID pj) in
                           if available <s PrintWeightInGrams pj then
                             (f, Some (NotEnoughFilament available (PrintWeightInGrams pj)))
                           else
                             (f\<lparr>printJobs :=
                                  DAList.update (PrintJob.ID pj) (pj\<lparr>Status := ''Queued''\<rparr>)
                                    (printJobs f)\<rparr>, None))))
          else if Command.Type cmd = UpdatePrintJob then
            (case DAList.lookup (printJobs f) (JobID cmd) of
               None \<Rightarrow> (f, Some (NoSuchPrintJob (JobID cmd)))
             | Some job \<Rightarrow>
                 (case ValidateStatusChange (Status job) (NewStatus cmd) of
                    Some err \<Rightarrow> (f, Some err)
                  | None \<Rightarrow>
                      let oldStatus = Status job;
                          job' = job\<lparr>Status := NewStatus cmd\<rparr>;
                          f' = f\<lparr>printJobs := DAList.update (JobID cmd) job' (printJobs f)\<rparr>
                      in
                      if oldStatus = ''Running'' \<and> NewStatus cmd = ''Done'' then
                        (case DAList.lookup (filaments f') (FilamentID job') of
                           None \<Rightarrow> (f', Some (NoSuchFilament (FilamentID job')))
                         | Some filament \<Rightarrow>
                             let r = RemainingWeightInGrams filament - PrintWeightInGrams job';
                                 r' = (if r <s 0 then 0 else r)
                             in (f'\<lparr>filaments :=
                                      DAList.update (FilamentID job')
                                        (filament\<lparr>RemainingWeightInGrams := r'\<rparr>) (filaments f')\<rparr>,
                                 None))
                      else (f', None)))
          else (f, Some (UnknownCommandType (Command.Type cmd))))"


text \<open>A log of entries, applied in order.\<close>

fun applyAll :: "FSM \<Rightarrow> (string + Command) list \<Rightarrow> FSM" where
  "applyAll f [] = f"
| "applyAll f (d # ds) = applyAll (fst (Apply f d)) ds"

text \<open>Every stored job has one of the four statuses of \<open>IsValidPrintJobStatus\<close>.\<close>

definition valid_statuses :: "FSM \<Rightarrow> bool" where
  "valid_statuses f =
     list_all (\<lambda>(k, job). IsValidPrintJobStatus (Status job)) (DAList.impl_of (printJobs f))"

subsection \<open>Snapshot, Persist and Restore\<close>

text \<open>\<open>Snapshot\<close> copies the three maps, entry by entry, into an \<open>fsmSnapshot\<close>.\<close>

definition Snapshot :: "FSM \<Rightarrow> fsmSnapshot" where
  "Snapshot f = \<lparr>fsmSnapshot.printers = FSM.printers f, fsmSnapshot.filaments = FSM.filaments f,
     fsmSnapshot.printJobs = FSM.printJobs f\<rparr>"

text \<open>
  \<open>Persist\<close> hands the snapshot to \<open>json.NewEncoder(sink).Encode\<close> and \<open>Restore\<close>
  reads it back with \<open>json.NewDecoder(rc).Decode\<close>. A JSON document is modelled by
  its value; the bytes on the sink are the text of that value, and reading that text
  gives the value back.
\<close>

datatype json =
    JNull
  | JBool bool
  | JNumber int
  | JString string
  | JArray "json list"
  | JObject "(string \<times> json) list"

text \<open>
  encoding/json goes through a struct by reflection and sees only its exported fields:
  those whose name starts with an upper-case letter. A field is given here by its Go
  name, the encoding of its value, and the decoding of a JSON value into it.
\<close>

definition exported :: "string \<Rightarrow> bool" where
  "exported name =
     (case name of [] \<Rightarrow> False | c # cs \<Rightarrow> 65 \<le> (of_char c :: nat) \<and> (of_char c :: nat) \<le> 90)"

type_synonym 's struct_field = "string \<times> ('s \<Rightarrow> json) \<times> (json \<Rightarrow> 's \<Rightarrow> string + 's)"

definition ascii_lower :: "char \<Rightarrow> char" where
  "ascii_lower c =
     (if 65 \<le> (of_char c :: nat) \<and> (of_char c :: nat) \<le> 90 then char_of (of_char c + 32 :: nat) else c)"

text \<open>An object member goes to the exported field of that name, or else to one whose
  name differs from it only in the case of its letters; other members are ignored.\<close>

definition field_for :: "'s struct_field list \<Rightarrow> string \<Rightarrow> 's struct_field option" where
  "field_for flds key =
     (case find (\<lambda>(n, enc, dec). exported n \<and> n = key) flds of
        Some fld \<Rightarrow> Some fld
      | None \<Rightarrow>
          find (\<lambda>(n, enc, dec). exported n \<and> map ascii_lower n = map ascii_lower key) flds)"

definition encode_struct :: "'s struct_field list \<Rightarrow> 's \<Rightarrow> json" where
  "encode_struct flds s =
     JObject (map (\<lambda>(n, enc, dec). (n, enc s)) (filter (\<lambda>(n, enc, dec). exported n) flds))"

fun decode_members :: "'s struct_field list \<Rightarrow> (string \<times> json) list \<Rightarrow> 's \<Rightarrow> string + 's" where
  "decode_members flds [] s = Inr s"
| "decode_members flds ((key, v) # members) s =
     (case field_for flds key of
        None \<Rightarrow> decode_members flds members s
      | Some (n, enc, dec) \<Rightarrow>
          (case dec v s of
             Inl e \<Rightarrow> Inl e
           | Inr s' \<Rightarrow> decode_members flds members s'))"

definition decode_struct :: "'s struct_field list \<Rightarrow> json \<Rightarrow> 's \<Rightarrow> string + 's" where
  "decode_struct flds doc s =
     (case doc of
        JNull \<Rightarrow> Inr s
      | JObject members \<Rightarrow> decode_members flds members s
      | _ \<Rightarrow> Inl ''json: cannot unmarshal value into Go struct'')"

text \<open>
  How encoding/json writes and reads the three kinds of entity map does not depend on
  this repository; it is a parameter of the model.
\<close>

record codecs =
  encodePrinters :: "Printer go_map \<Rightarrow> json"
  decodePrinters :: "json \<Rightarrow> string + Printer go_map"
  encodeFilaments :: "Filament go_map \<Rightarrow> json"
  decodeFilaments :: "json \<Rightarrow> string + Filament go_map"
  encodePrintJobs :: "PrintJob go_map \<Rightarrow> json"
  decodePrintJobs :: "json \<Rightarrow> string + PrintJob go_map"

text \<open>The fields of a struct with the three maps, under the given Go names.\<close>

definition snapshot_fields :: "string \<times> string \<times> string \<Rightarrow> codecs \<Rightarrow> fsmSnapshot struct_field list" where
  "snapshot_fields names c =
     (case names of (n1, n2, n3) \<Rightarrow>
       [(n1, (\<lambda>s. encodePrinters c (fsmSnapshot.printers s)),
             (\<lambda>v s. case decodePrinters c v of
                       Inl e \<Rightarrow> Inl e | Inr m \<Rightarrow> Inr (s\<lparr>fsmSnapshot.printers := m\<rparr>))),
        (n2, (\<lambda>s. encodeFilaments c (fsmSnapshot.filaments s)),
             (\<lambda>v s. case decodeFilaments c v of
                       Inl e \<Rightarrow> Inl e | Inr m \<Rightarrow> Inr (s\<lparr>fsmSnapshot.filaments := m\<rparr>))),
        (n3, (\<lambda>s. encodePrintJobs c (fsmSnapshot.printJobs s)),
             (\<lambda>v s. case decodePrintJobs c v of
                       Inl e \<Rightarrow> Inl e | Inr m \<Rightarrow> Inr (s\<lparr>fsmSnapshot.printJobs := m\<rparr>)))])"

text \<open>The declaration of \<open>fsmSnapshot\<close>: fields \<open>printers\<close>, \<open>filaments\<close>,
  \<open>printJobs\<close>, with no struct tags.\<close>

definition fsmSnapshot_fields :: "codecs \<Rightarrow> fsmSnapshot struct_field list" where
  "fsmSnapshot_fields = snapshot_fields (''printers'', ''filaments'', ''printJobs'')"

text \<open>
  The zero value of \<open>fsmSnapshot\<close>. Its maps are \<open>nil\<close>; a \<open>nil\<close> map has no
  entries and reads like an empty one, and the model does not tell the two apart.
  (Storing into a \<open>nil\<close> map panics; no statement below stores into the maps of a
  restored state.)
\<close>

definition zero_fsmSnapshot :: fsmSnapshot where
  "zero_fsmSnapshot = \<lparr>fsmSnapshot.printers = DAList.empty, fsmSnapshot.filaments = DAList.empty,
     fsmSnapshot.printJobs = DAList.empty\<rparr>"

text \<open>\<open>Persist\<close>: the document that \<open>Encode\<close> writes to the sink.\<close>

definition Persist :: "codecs \<Rightarrow> fsmSnapshot \<Rightarrow> json" where
  "Persist c s = encode_struct (fsmSnapshot_fields c) s"

text \<open>
  \<open>Restore\<close> takes what the decoder makes of the stream (\<open>Inl\<close> its error when the
  stream holds no JSON value, \<open>Inr\<close> the value read) and returns the state it leaves
  with its error.
\<close>

definition Restore :: "codecs \<Rightarrow> FSM \<Rightarrow> string + json \<Rightarrow> FSM \<times> string option" where
  "Restore c f rc =
     (case rc of
        Inl err \<Rightarrow> (f, Some err)
      | Inr doc \<Rightarrow>
          (case decode_struct (fsmSnapshot_fields c) doc zero_fsmSnapshot of
             Inl err \<Rightarrow> (f, Some err)
           | Inr snapshot \<Rightarrow>
               (f\<lparr>FSM.printers := fsmSnapshot.printers snapshot,
                  FSM.filaments := fsmSnapshot.filaments snapshot,
                  FSM.printJobs := fsmSnapshot.printJobs snapshot\<rparr>, None)))"

text \<open>The same two functions for a snapshot struct whose fields had the given names.\<close>

definition Persist_as :: "string \<times> string \<times> string \<Rightarrow> codecs \<Rightarrow> fsmSnapshot \<Rightarrow> json" where
  "Persist_as names c s = encode_struct (snapshot_fields names c) s"


definition Restore_as ::
  "string \<times> string \<times> string \<Rightarrow> codecs \<Rightarrow> FSM \<Rightarrow> string + json \<Rightarrow> FSM \<times> string option" where
  "Restore_as names c f rc =
     (case rc of
        Inl err \<Rightarrow> (f, Some err)
      | Inr doc \<Rightarrow>
          (case decode_struct (snapshot_fields names c) doc zero_fsmSnapshot of
             Inl err \<Rightarrow> (f, Some err)
           | Inr snapshot \<Rightarrow>
               (f\<lparr>FSM.printers := fsmSnapshot.printers snapshot,
                  FSM.filaments := fsmSnapshot.filaments snapshot,
                  FSM.printJobs := fsmSnapshot.printJobs snapshot\<rparr>, None)))"

section \<open>The store (raft/fsm.go, type Store)\<close>

datatype errno = ENOENT | EISDIR

datatype os_error =
    ErrNotExist
  | PathError string string errno
  | OutsideDirectory string

text \<open>\<open>os.IsNotExist\<close>: the error is \<open>ErrNotExist\<close> or wraps \<open>ENOENT\<close>.\<close>

fun IsNotExist :: "os_error \<Rightarrow> bool" where
  "IsNotExist ErrNotExist = True"
| "IsNotExist (PathError op p e) = (e = ENOENT)"
| "IsNotExist (OutsideDirectory p) = False"

text \<open>
  In file mode the store works on one directory, \<open>s.path\<close>, made by \<open>NewStore\<close>.
  The model holds the entries of that directory: a name is bound to a regular file
  with its content or to a subdirectory. \<open>ReadDir\<close> lists them sorted by name. A key
  is the name of an entry when it is a plain file name; any other key makes
  \<open>filepath.Join\<close> point outside the entries of the directory, where the model
  holds nothing, and the operation ends with \<open>OutsideDirectory\<close>. The directory
  exists and the process may read and write it, so \<open>ReadDir\<close> does not fail;
  \<open>WriteFile\<close> replaces the content of a regular file or creates it.
\<close>

datatype dirent = File string | Dir

type_synonym directory = "(string, dirent) alist"

definition plain_name :: "string \<Rightarrow> bool" where
  "plain_name key =
     (key \<noteq> [] \<and> key \<noteq> ''.'' \<and> key \<noteq> ''..'' \<and> CHR ''/'' \<notin> set key \<and> CHR 0x00 \<notin> set key
      \<and> length key \<le> 255)"

definition Join :: "string \<Rightarrow> string \<Rightarrow> string" where
  "Join dir name = dir @ ''/'' @ name"

definition ReadFile :: "directory \<Rightarrow> string \<Rightarrow> string \<Rightarrow> os_error + string" where
  "ReadFile d dir name =
     (if \<not> plain_name name then Inl (OutsideDirectory (Join dir name))
      else case DAList.lookup d name of
             None \<Rightarrow> Inl (PathError ''open'' (Join dir name) ENOENT)
           | Some Dir \<Rightarrow> Inl (PathError ''read'' (Join dir name) EISDIR)
           | Some (File content) \<Rightarrow> Inr content)"

definition WriteFile :: "directory \<Rightarrow> string \<Rightarrow> string \<Rightarrow> string \<Rightarrow> directory \<times> os_error option" where
  "WriteFile d dir name content =
     (if \<not> plain_name name then (d, Some (OutsideDirectory (Join dir name)))
      else case DAList.lookup d name of
             Some Dir \<Rightarrow> (d, Some (PathError ''open'' (Join dir name) EISDIR))
           | _ \<Rightarrow> (DAList.update name (File content) d, None))"

definition ReadDir :: "directory \<Rightarrow> (string \<times> dirent) list" where
  "ReadDir d = sort_key fst (DAList.impl_of d)"

definition IsDir :: "dirent \<Rightarrow> bool" where
  "IsDir e = (e = Dir)"

record Store =
  path :: string
  inMemory :: "string go_map"

definition NewStore :: "string \<Rightarrow> Store" where
  "NewStore p = \<lparr>path = p, inMemory = DAList.empty\<rparr>"

text \<open>Each operation takes the store and the directory and returns what it leaves.\<close>

definition Store_Set :: "Store \<Rightarrow> directory \<Rightarrow> string \<Rightarrow> string \<Rightarrow> Store \<times> directory \<times> os_error option" where
  "Store_Set s d key val =
     (if path s = [] then (s\<lparr>inMemory := DAList.update key val (inMemory s)\<rparr>, d, None)
      else case WriteFile d (path s) key val of (d', err) \<Rightarrow> (s, d', err))"

definition Store_Get :: "Store \<Rightarrow> directory \<Rightarrow> string \<Rightarrow> os_error + string" where
  "Store_Get s d key =
     (if path s = [] then
        (case DAList.lookup (inMemory s) key of None \<Rightarrow> Inl ErrNotExist | Some val \<Rightarrow> Inr val)
      else ReadFile d (path s) key)"

text \<open>The file name \<open>fmt.Sprintf("snapshot-%d", t)\<close>.\<close>

definition snapshot_name :: "go_int \<Rightarrow> string" where
  "snapshot_name t = ''snapshot-'' @ fmt_d (sint t)"

text \<open>\<open>now\<close> is what \<open>time.Now().Unix()\<close> returns at the call.\<close>

definition StoreSnapshot ::
  "Store \<Rightarrow> directory \<Rightarrow> go_int \<Rightarrow> string \<Rightarrow> Store \<times> directory \<times> os_error option" where
  "StoreSnapshot s d now data =
     (if path s = [] then (s\<lparr>inMemory := DAList.update ''snapshot'' data (inMemory s)\<rparr>, d, None)
      else case WriteFile d (path s) (snapshot_name now) data of
             (d', err) \<Rightarrow> (s, d', err))"

text \<open>The loop of \<open>LoadSnapshot\<close> over the directory entries, on
  \<open>(latestSnapshot, latestTime)\<close>.\<close>

definition latest_step :: "string \<times> dirent \<Rightarrow> string \<times> go_int \<Rightarrow> string \<times> go_int" where
  "latest_step file latest =
     (case file of (name, e) \<Rightarrow>
        if \<not> IsDir e \<and> 9 < length name \<and> take 9 name = ''snapshot-'' then
          (case Sscanf_d name ''snapshot-'' of
             Inl err \<Rightarrow> latest
           | Inr timestamp \<Rightarrow> if snd latest <s timestamp then (name, timestamp) else latest)
        else latest)"

definition LoadSnapshot :: "Store \<Rightarrow> directory \<Rightarrow> os_error + string" where
  "LoadSnapshot s d =
     (if path s = [] then
        (case DAList.lookup (inMemory s) ''snapshot'' of None \<Rightarrow> Inl ErrNotExist | Some val \<Rightarrow> Inr val)
      else
        let latestSnapshot = fst (fold latest_step (ReadDir d) ([], 0))
        in if latestSnapshot = [] then Inl ErrNotExist
           else ReadFile d (path s) latestSnapshot)"

text \<open>A run of \<open>StoreSnapshot\<close> calls, each with its clock reading and its data.\<close>

fun storeAll :: "Store \<Rightarrow> directory \<Rightarrow> (go_int \<times> string) list \<Rightarrow> Store \<times> directory" where
  "storeAll s d [] = (s, d)"
| "storeAll s d ((now, data) # calls) =
     (case StoreSnapshot s d now data of (s', d', err) \<Rightarrow> storeAll s' d' calls)"

section \<open>Forwarding to the leader (raft/transport.go)\<close>

text \<open>What \<open>Node.Leader()\<close> and \<open>Node.LeaderAddress()\<close> answer at the call.\<close>

record Node =
  Leader :: bool
  LeaderAddress :: string

record Request =
  Method :: string
  URL :: string
  Header :: "(string \<times> string) list"
  Body :: "string option"

text \<open>\<open>BodyRead n\<close> is the one call \<open>resp.Body.Read\<close> on a buffer of \<open>n\<close> bytes:
  its error, or the buffer afterwards.\<close>

record Response =
  StatusCode :: go_int
  ContentLength :: go_int
  BodyRead :: "nat \<Rightarrow> string + string"

text \<open>
  The network and net/http are outside the program: \<open>NewRequest m u\<close> is the error
  of \<open>http.NewRequestWithContext\<close> for method \<open>m\<close> and URL \<open>u\<close> (\<open>None\<close>: the
  request is built), \<open>Do\<close> is \<open>client.Do\<close>, under the five-second deadline.
\<close>

record net =
  NewRequest :: "string \<Rightarrow> string \<Rightarrow> string option"
  Do :: "Request \<Rightarrow> string + Response"

datatype transport_error =
    NoLeaderAvailable
  | ParseLeaderPort string
  | NewRequestError string
  | DoError string
  | NonSuccessResponse go_int
  | ReadError string

fun transport_message :: "transport_error \<Rightarrow> string" where
  "transport_message NoLeaderAvailable = ''no leader available''"
| "transport_message (ParseLeaderPort e) = ''failed to parse leader port: '' @ e"
| "transport_message (NewRequestError e) = e"
| "transport_message (DoError e) = e"
| "transport_message (NonSuccessResponse code) = ''received non-success response: '' @ fmt_d (sint code)"
| "transport_message (ReadError e) = e"

text \<open>
  A call returns \<open>(body, nil)\<close>, with \<open>None\<close> for a \<open>nil\<close> body, or \<open>(nil, err)\<close>,
  or panics. \<open>ForwardToLeader\<close> gives the requests handed to \<open>client.Do\<close>, in
  order, with the outcome.
\<close>

datatype outcome = Return "string option" | Fail transport_error | Panic string

definition ForwardToLeader ::
  "net \<Rightarrow> Node \<Rightarrow> string \<Rightarrow> string \<Rightarrow> string option \<Rightarrow> Request list \<times> outcome" where
  "ForwardToLeader nw node method pth body =
     (if Leader node then ([], Return None)
      else
        (let leaderAddr = LeaderAddress node in
         if leaderAddr = [] then ([], Fail NoLeaderAvailable)
         else if length leaderAddr < 4 then ([], Panic ''slice bounds out of range'')
         else
           (case Sscanf_d (drop (length leaderAddr - 4) leaderAddr) [] of
              Inl err \<Rightarrow> ([], Fail (ParseLeaderPort err))
            | Inr leaderPort \<Rightarrow>
                (let leaderHTTPPort = 8000 + (leaderPort - 7000);
                     leaderHTTPAddr = ''http://localhost:'' @ fmt_d (sint leaderHTTPPort)
                 in
                 (case NewRequest nw method (leaderHTTPAddr @ pth) of
                    Some err \<Rightarrow> ([], Fail (NewRequestError err))
                  | None \<Rightarrow>
                      (let req0 = \<lparr>Method = method, URL = leaderHTTPAddr @ pth, Header = [],
                                    Body = None\<rparr>;
                           req = (if body \<noteq> None
                                  then req0\<lparr>Header := [(''Content-Type'', ''application/json'')],
                                            Body := Some []\<rparr>
                                  else req0)
                       in
                       (case Do nw req of
                          Inl err \<Rightarrow> ([req], Fail (DoError err))
                        | Inr resp \<Rightarrow>
                            (if StatusCode resp \<noteq> 200 \<and> StatusCode resp \<noteq> 201 then
                               ([req], Fail (NonSuccessResponse (StatusCode resp)))
                             else if 0 <s ContentLength resp then
                               (case BodyRead resp (nat (sint (ContentLength resp))) of
                                  Inl err \<Rightarrow> ([req], Fail (ReadError err))
                                | Inr respBody \<Rightarrow> ([req], Return (Some respBody)))
                             else ([req], Return None)))))))))"

section \<open>Commands as the handlers build them, and sample data\<close>

text \<open>
  The handlers of api/handlers fill in the command type and one payload; the other
  fields keep their zero values. \<open>CreatePrintJob\<close> sets the status to Queued before
  it submits the job. \<open>rawAddPrintJob\<close> is the same command with the payload as it
  is, status included.
\<close>

definition CreatePrinter :: "Printer \<Rightarrow> Command" where
  "CreatePrinter p = \<lparr>Command.Type = AddPrinter, Printer = Some p, Filament = None,
     PrintJob = None, JobID = [], NewStatus = []\<rparr>"

definition CreateFilament :: "Filament \<Rightarrow> Command" where
  "CreateFilament fl = \<lparr>Command.Type = AddFilament, Printer = None, Filament = Some fl,
     PrintJob = None, JobID = [], NewStatus = []\<rparr>"

definition CreatePrintJob :: "PrintJob \<Rightarrow> Command" where
  "CreatePrintJob pj = \<lparr>Command.Type = AddPrintJob, Printer = None, Filament = None,
     PrintJob = Some (pj\<lparr>Status := ''Queued''\<rparr>), JobID = [], NewStatus = []\<rparr>"

definition UpdatePrintJobStatus :: "string \<Rightarrow> string \<Rightarrow> Command" where
  "UpdatePrintJobStatus jobID newStatus = \<lparr>Command.Type = UpdatePrintJob, Printer = None,
     Filament = None, PrintJob = None, JobID = jobID, NewStatus = newStatus\<rparr>"

definition rawAddPrintJob :: "PrintJob \<Rightarrow> Command" where
  "rawAddPrintJob pj = \<lparr>Command.Type = AddPrintJob, Printer = None, Filament = None,
     PrintJob = Some pj, JobID = [], NewStatus = []\<rparr>"

definition printer1 :: Printer where
  "printer1 = \<lparr>Printer.ID = ''p1'', Company = ''Creality'', Model = ''Ender 3''\<rparr>"

definition filament1 :: Filament where
  "filament1 = \<lparr>Filament.ID = ''f1'', Type = ''PLA'', Color = ''red'',
     TotalWeightInGrams = 1000, RemainingWeightInGrams = 1000\<rparr>"

definition job1 :: PrintJob where
  "job1 = \<lparr>PrintJob.ID = ''j1'', PrinterID = ''p1'', FilamentID = ''f1'',
     Filepath = ''prints/model.gcode'', PrintWeightInGrams = 400, Status = []\<rparr>"

definition job2 :: PrintJob where
  "job2 = \<lparr>PrintJob.ID = ''j2'', PrinterID = ''p1'', FilamentID = ''f1'',
     Filepath = ''prints/model.gcode'', PrintWeightInGrams = 700, Status = ''Done''\<rparr>"

definition job3 :: PrintJob where
  "job3 = \<lparr>PrintJob.ID = ''j3'', PrinterID = ''p1'', FilamentID = ''f1'',
     Filepath = ''prints/model.gcode'', PrintWeightInGrams = 600, Status = ''Done''\<rparr>"

text \<open>The same filament with 100 g left.\<close>

definition filament1_low :: Filament where
  "filament1_low = filament1\<lparr>RemainingWeightInGrams := 100\<rparr>"

text \<open>A printer, a filament of 1000 g, a job of 400 g on it, and the job started.\<close>

definition history1 :: "(string + Command) list" where
  "history1 = [Inr (CreatePrinter printer1), Inr (CreateFilament filament1),
     Inr (CreatePrintJob job1), Inr (UpdatePrintJobStatus ''j1'' ''Running'')]"

text \<open>A state whose only job is Running on a filament that is not in the map.\<close>

definition orphan_job :: PrintJob where
  "orphan_job = \<lparr>PrintJob.ID = ''j9'', PrinterID = ''p9'', FilamentID = ''f9'', Filepath = [],
     PrintWeightInGrams = 5, Status = ''Running''\<rparr>"

definition orphan_state :: FSM where
  "orphan_state = \<lparr>printers = DAList.empty, filaments = DAList.empty,
     printJobs = DAList.update ''j9'' orphan_job DAList.empty\<rparr>"

text \<open>A network on which every request is built and answered 200 with no body.\<close>

definition quiet_net :: net where
  "quiet_net = \<lparr>NewRequest = (\<lambda>m u. None),
     Do = (\<lambda>req. Inr \<lparr>StatusCode = 200, ContentLength = 0,
                       BodyRead = (\<lambda>n. Inr (replicate n (CHR 0x00)))\<rparr>)\<rparr>"

text \<open>A network on which net/http rejects the method \<open>BAD METHOD\<close>.\<close>

definition picky_net :: net where
  "picky_net = quiet_net\<lparr>NewRequest :=
     (\<lambda>m u. if m = ''BAD METHOD'' then Some ''net/http: invalid method'' else None)\<rparr>"

text \<open>A node that is the leader, and a follower that knows the given leader address.\<close>

definition leader_node :: Node where
  "leader_node = \<lparr>Leader = True, LeaderAddress = ''localhost:7000''\<rparr>"

definition follower :: "string \<Rightarrow> Node" where
  "follower addr = \<lparr>Leader = False, LeaderAddress = addr\<rparr>"

text \<open>Two stores, one in memory and one on a directory that starts empty.\<close>

definition memory_store :: "(go_int \<times> string) list \<Rightarrow> Store \<times> directory" where
  "memory_store calls = storeAll (NewStore []) DAList.empty calls"

definition file_store :: "(go_int \<times> string) list \<Rightarrow> Store \<times> directory" where
  "file_store calls = storeAll (NewStore ''data/node1/store'') DAList.empty calls"

text \<open>Clock readings that are positive and never go back.\<close>

definition steady_clock :: "go_int list \<Rightarrow> bool" where
  "steady_clock ts = (list_all (\<lambda>t. 0 <s t) ts \<and> sorted_wrt (\<lambda>a b. a \<le>s b) ts)"

section \<open>The state machine: lemmas\<close>

lemma types_distinct:
  "AddPrinter \<noteq> AddFilament" "AddPrinter \<noteq> AddPrintJob" "AddPrinter \<noteq> UpdatePrintJob"
  "AddFilament \<noteq> AddPrintJob" "AddFilament \<noteq> UpdatePrintJob" "AddPrintJob \<noteq> UpdatePrintJob"
  by (simp_all add: AddPrinter_def AddFilament_def AddPrintJob_def UpdatePrintJob_def)

lemma Apply_AddPrintJob:
  assumes "Command.Type cmd = AddPrintJob" and "Command.PrintJob cmd = Some pj"
  shows "Apply f (Inr cmd) =
     (case DAList.lookup (printers f) (PrinterID pj) of
        None \<Rightarrow> (f, Some (NoSuchPrinter (PrinterID pj)))
      | Some _ \<Rightarrow>
          (case DAList.lookup (filaments f) (FilamentID pj) of
             None \<Rightarrow> (f, Some (NoSuchFilament (FilamentID pj)))
           | Some filament \<Rightarrow>
               if availableWeight f filament (FilamentID pj) <s PrintWeightInGrams pj then
                 (f, Some (NotEnoughFilament (availableWeight f filament (FilamentID pj))
                             (PrintWeightInGrams pj)))
               else
                 (f\<lparr>printJobs :=
                      DAList.update (PrintJob.ID pj) (pj\<lparr>Status := ''Queued''\<rparr>) (printJobs f)\<rparr>,
                  None)))"
  using assms types_distinct by (simp add: Apply_def Let_def split: option.splits)

lemma Apply_UpdatePrintJob:
  assumes "Command.Type cmd = UpdatePrintJob"
  shows "Apply f (Inr cmd) =
     (case DAList.lookup (printJobs f) (JobID cmd) of
        None \<Rightarrow> (f, Some (NoSuchPrintJob (JobID cmd)))
      | Some job \<Rightarrow>
          (case ValidateStatusChange (Status job) (NewStatus cmd) of
             Some err \<Rightarrow> (f, Some err)
           | None \<Rightarrow>
               if Status job = ''Running'' \<and> NewStatus cmd = ''Done'' then
                 (case DAList.lookup (filaments f) (FilamentID job) of
                    None \<Rightarrow>
                      (f\<lparr>printJobs :=
                           DAList.update (JobID cmd) (job\<lparr>Status := ''Done''\<rparr>) (printJobs f)\<rparr>,
                       Some (NoSuchFilament (FilamentID job)))
                  | Some filament \<Rightarrow>
                      (f\<lparr>printJobs :=
                           DAList.update (JobID cmd) (job\<lparr>Status := ''Done''\<rparr>) (printJobs f),
                         filaments :=
                           DAList.update (FilamentID job)
                             (filament\<lparr>RemainingWeightInGrams :=
                                (if RemainingWeightInGrams filament - PrintWeightInGrams job <s 0
                                 then 0
                                 else RemainingWeightInGrams filament - PrintWeightInGrams job)\<rparr>)
                             (filaments f)\<rparr>,
                       None))
               else
                 (f\<lparr>printJobs :=
                      DAList.update (JobID cmd) (job\<lparr>Status := NewStatus cmd\<rparr>) (printJobs f)\<rparr>,
                  None)))"
  using assms types_distinct by (simp add: Apply_def Let_def split: option.splits)

lemma sint_minus_exact:
  fixes r w :: go_int
  assumes "- (2 ^ 63) \<le> sint r - sint w" and "sint r - sint w < 2 ^ 63"
  shows "sint (r - w) = sint r - sint w"
  using assms by (simp add: sint_word_ariths signed_take_bit_int_eq_self)

lemma availableWeight_sum:
  "availableWeight f filament fid =
     RemainingWeightInGrams filament
       - sum_list (map PrintWeightInGrams (filter (reserves fid) (map snd (DAList.impl_of (printJobs f)))))"
proof -
  have "fold (\<lambda>(k, job) available.
             if reserves fid job then available - PrintWeightInGrams job else available) xs a
        = a - sum_list (map PrintWeightInGrams (filter (reserves fid) (map snd xs)))" for xs a
    by (induction xs arbitrary: a) (auto simp: algebra_simps)
  then show ?thesis by (simp add: availableWeight_def)
qed

lemma entry_iff_lookup: "(k, v) \<in> set (DAList.impl_of m) \<longleftrightarrow> DAList.lookup m k = Some v"
  by (simp add: DAList.lookup.rep_eq)

lemma valid_statuses_lookup:
  "valid_statuses f \<longleftrightarrow>
     (\<forall>k job. DAList.lookup (printJobs f) k = Some job \<longrightarrow> IsValidPrintJobStatus (Status job))"
  by (auto simp: valid_statuses_def list_all_iff entry_iff_lookup)

lemma Apply_valid_statuses:
  assumes "valid_statuses f"
  shows "valid_statuses (fst (Apply f d))"
proof (cases d)
  case (Inl e)
  with assms show ?thesis by (simp add: Apply_def)
next
  case (Inr cmd)
  consider (p) "Command.Type cmd = AddPrinter" | (fl) "Command.Type cmd = AddFilament"
    | (a) "Command.Type cmd = AddPrintJob" | (u) "Command.Type cmd = UpdatePrintJob"
    | (other) "Command.Type cmd \<notin> {AddPrinter, AddFilament, AddPrintJob, UpdatePrintJob}"
    by auto
  then show ?thesis
  proof cases
    case p
    with assms Inr show ?thesis
      by (auto simp: Apply_def valid_statuses_lookup split: option.splits)
  next
    case fl
    with assms Inr show ?thesis
      by (auto simp: Apply_def valid_statuses_lookup split: option.splits)
  next
    case a
    show ?thesis
    proof (cases "Command.PrintJob cmd")
      case None
      with assms Inr a types_distinct show ?thesis by (simp add: Apply_def)
    next
      case (Some pj)
      from assms show ?thesis
        unfolding Inr Apply_AddPrintJob [OF a Some]
        by (auto simp: valid_statuses_lookup DAList.lookup_update IsValidPrintJobStatus_def
                 split: option.splits if_splits)
    qed
  next
    case u
    from assms show ?thesis
      unfolding Inr Apply_UpdatePrintJob [OF u]
      by (auto simp: valid_statuses_lookup DAList.lookup_update IsValidPrintJobStatus_def
                     ValidateStatusChange_def
               split: option.splits if_splits)
  next
    case other
    with assms Inr show ?thesis by (simp add: Apply_def)
  qed
qed

lemma applyAll_valid_statuses: "valid_statuses f \<Longrightarrow> valid_statuses (applyAll f ds)"
  by (induction ds arbitrary: f) (simp_all add: Apply_valid_statuses)

lemmas ex_defs = history1_def CreatePrinter_def CreateFilament_def CreatePrintJob_def
  UpdatePrintJobStatus_def printer1_def filament1_def job1_def NewFSM_def
  AddPrinter_def AddFilament_def AddPrintJob_def UpdatePrintJob_def

lemmas ex_defs2 = ex_defs job2_def job3_def rawAddPrintJob_def orphan_state_def orphan_job_def
lemmas eval_defs = Apply_def availableWeight_def reserves_def ValidateStatusChange_def
     DAList.update.rep_eq DAList.empty.rep_eq word_sless_alt word_sle_eq

lemma state1:
  "applyAll NewFSM history1 =
     \<lparr>printers = DAList.update ''p1'' printer1 DAList.empty,
      filaments = DAList.update ''f1'' filament1 DAList.empty,
      printJobs = DAList.update ''j1'' (job1\<lparr>Status := ''Running''\<rparr>) DAList.empty\<rparr>"
  by (simp add: ex_defs eval_defs)

lemma state1_lookups:
  "DAList.lookup (printers (applyAll NewFSM history1)) ''p1'' = Some printer1"
  "DAList.lookup (filaments (applyAll NewFSM history1)) ''f1'' = Some filament1"
  "DAList.lookup (printJobs (applyAll NewFSM history1)) ''j1'' = Some (job1\<lparr>Status := ''Running''\<rparr>)"
  by (simp_all add: state1)

lemma state1_low:
  "applyAll NewFSM (history1 @ [Inr (CreateFilament filament1_low)]) =
     \<lparr>printers = DAList.update ''p1'' printer1 DAList.empty,
      filaments = DAList.update ''f1'' filament1_low DAList.empty,
      printJobs = DAList.update ''j1'' (job1\<lparr>Status := ''Running''\<rparr>) DAList.empty\<rparr>"
  by (simp add: ex_defs filament1_low_def eval_defs)

section \<open>The state machine: claims\<close>

text \<open>
  Claim C2, as stated, fails where the new job's id is already in the map: the run
  \<open>history1\<close> leaves job \<open>j1\<close> Running; a second \<open>AddPrintJob\<close> for \<open>j1\<close>, whose
  printer and filament exist and whose weight fits, is accepted and the job stored
  before is Queued again.
\<close>

theorem add_print_job_replaces_running_job:
  "DAList.lookup (printers (applyAll NewFSM history1)) (PrinterID job1) \<noteq> None \<and>
   DAList.lookup (filaments (applyAll NewFSM history1)) (FilamentID job1) \<noteq> None \<and>
   map_option Status (DAList.lookup (printJobs (applyAll NewFSM history1)) ''j1'') = Some ''Running'' \<and>
   snd (Apply (applyAll NewFSM history1) (Inr (CreatePrintJob job1))) = None \<and>
   map_option Status
     (DAList.lookup (printJobs (fst (Apply (applyAll NewFSM history1) (Inr (CreatePrintJob job1)))))
        ''j1'') = Some ''Queued''"
  by (simp add: ex_defs eval_defs)

text \<open>
  Claim C2 (amended): for every state and every \<open>AddPrintJob\<close> command whose printer
  and filament exist, let \<open>available\<close> be the filament's remaining weight minus the sum
  of the weights of all stored jobs on the same filament that are Queued or Running (a
  job stored under the new job's own id included), in Go's \<open>int\<close> arithmetic. If the
  requested weight exceeds \<open>available\<close>, \<open>Apply\<close> returns the not-enough-filament
  error, whose message shows \<open>available\<close> and the requested weight, and the state is
  unchanged. Otherwise \<open>Apply\<close> returns \<open>nil\<close>, the job is stored under its id with
  status Queued, and the jobs stored under every other id, the printers and the
  filaments are unchanged.
\<close>

theorem add_print_job_capacity:
  assumes "Command.Type cmd = AddPrintJob" and "Command.PrintJob cmd = Some pj"
    and "DAList.lookup (printers f) (PrinterID pj) = Some p"
    and "DAList.lookup (filaments f) (FilamentID pj) = Some fl"
    and "available = RemainingWeightInGrams fl
           - sum_list (map PrintWeightInGrams
               (filter (reserves (FilamentID pj)) (map snd (DAList.impl_of (printJobs f)))))"
  shows "(available <s PrintWeightInGrams pj \<longrightarrow>
            Apply f (Inr cmd) = (f, Some (NotEnoughFilament available (PrintWeightInGrams pj))) \<and>
            Error (NotEnoughFilament available (PrintWeightInGrams pj))
              = ''not enough filament remaining. Available: '' @ fmt_d (sint available)
                  @ '' g, Required: '' @ fmt_d (sint (PrintWeightInGrams pj)) @ '' g'')
       \<and> (\<not> available <s PrintWeightInGrams pj \<longrightarrow>
            snd (Apply f (Inr cmd)) = None \<and>
            DAList.lookup (printJobs (fst (Apply f (Inr cmd)))) (PrintJob.ID pj)
              = Some (pj\<lparr>Status := ''Queued''\<rparr>) \<and>
            (\<forall>k. k \<noteq> PrintJob.ID pj \<longrightarrow>
               DAList.lookup (printJobs (fst (Apply f (Inr cmd)))) k
                 = DAList.lookup (printJobs f) k) \<and>
            printers (fst (Apply f (Inr cmd))) = printers f \<and>
            filaments (fst (Apply f (Inr cmd))) = filaments f)"
  using assms(3-5)
  by (simp add: Apply_AddPrintJob [OF assms(1,2)] availableWeight_sum)

theorem add_print_job_capacity_witness:
  "Apply (applyAll NewFSM history1) (Inr (rawAddPrintJob job2))
     = (applyAll NewFSM history1, Some (NotEnoughFilament 600 700)) \<and>
   Error (NotEnoughFilament 600 700)
     = ''not enough filament remaining. Available: 600 g, Required: 700 g'' \<and>
   snd (Apply (applyAll NewFSM history1) (Inr (rawAddPrintJob job3))) = None \<and>
   DAList.lookup (printJobs (fst (Apply (applyAll NewFSM history1) (Inr (rawAddPrintJob job3))))) ''j3''
     = Some (job3\<lparr>Status := ''Queued''\<rparr>) \<and>
   DAList.lookup (printJobs (fst (Apply (applyAll NewFSM history1) (Inr (rawAddPrintJob job3))))) ''j1''
     = Some (job1\<lparr>Status := ''Running''\<rparr>)"
proof -
  let ?s = "applyAll NewFSM history1"
  have p: "DAList.lookup (printers ?s) ''p1'' = Some printer1"
    and fl: "DAList.lookup (filaments ?s) ''f1'' = Some filament1"
    and av: "(600 :: go_int) = RemainingWeightInGrams filament1
           - sum_list (map PrintWeightInGrams
               (filter (reserves ''f1'') (map snd (DAList.impl_of (printJobs ?s)))))"
    and old: "DAList.lookup (printJobs ?s) ''j1'' = Some (job1\<lparr>Status := ''Running''\<rparr>)"
    by (simp_all add: state1) (simp_all add: ex_defs eval_defs)
  have digits: "fmt_d 600 = ''600''" "fmt_d 700 = ''700''" by code_simp+
  have lt: "(600 :: go_int) <s 700" "\<not> (600 :: go_int) <s 600" by (simp_all add: word_sless_alt)
  from add_print_job_capacity [of "rawAddPrintJob job2" job2 ?s printer1 filament1 600]
       add_print_job_capacity [of "rawAddPrintJob job3" job3 ?s printer1 filament1 600]
       p fl av old lt digits
  show ?thesis
    by (simp add: rawAddPrintJob_def job2_def job3_def)
qed

text \<open>
  Claim C3: for every stored job and every pair (current status, new status) outside
  Queued to Running, Queued to Canceled, Running to Done, Running to Canceled,
  \<open>UpdatePrintJob\<close> returns one of the errors of \<open>ValidateStatusChange\<close> and leaves
  the whole state as it was. Every pair in that set is accepted: the validator returns
  \<open>nil\<close>, \<open>Apply\<close> returns none of the validator's errors, and the stored job gets
  the new status.
\<close>

theorem update_print_job_transitions:
  assumes "Command.Type cmd = UpdatePrintJob"
    and "DAList.lookup (printJobs f) (JobID cmd) = Some job"
  shows "((Status job, NewStatus cmd) \<notin>
            {(''Queued'', ''Running''), (''Queued'', ''Canceled''),
             (''Running'', ''Done''), (''Running'', ''Canceled'')} \<longrightarrow>
          (\<exists>e. illegal_transition e \<and> Apply f (Inr cmd) = (f, Some e)))
       \<and> ((Status job, NewStatus cmd) \<in>
            {(''Queued'', ''Running''), (''Queued'', ''Canceled''),
             (''Running'', ''Done''), (''Running'', ''Canceled'')} \<longrightarrow>
          ValidateStatusChange (Status job) (NewStatus cmd) = None \<and>
          (\<forall>e. snd (Apply f (Inr cmd)) = Some e \<longrightarrow> \<not> illegal_transition e) \<and>
          DAList.lookup (printJobs (fst (Apply f (Inr cmd)))) (JobID cmd)
            = Some (job\<lparr>Status := NewStatus cmd\<rparr>))"
  using assms(2)
  by (auto simp: Apply_UpdatePrintJob [OF assms(1)] ValidateStatusChange_def illegal_transition_def
           split: option.splits if_splits)

theorem update_print_job_transitions_witness:
  "Apply (applyAll NewFSM history1) (Inr (UpdatePrintJobStatus ''j1'' ''Queued''))
     = (applyAll NewFSM history1, Some FromRunning) \<and>
   illegal_transition FromRunning \<and>
   ValidateStatusChange ''Running'' ''Canceled'' = None \<and>
   DAList.lookup
     (printJobs (fst (Apply (applyAll NewFSM history1) (Inr (UpdatePrintJobStatus ''j1'' ''Canceled'')))))
     ''j1'' = Some (job1\<lparr>Status := ''Canceled''\<rparr>)"
proof -
  let ?s = "applyAll NewFSM history1"
  have bad: "Apply ?s (Inr (UpdatePrintJobStatus ''j1'' ''Queued'')) = (?s, Some e) \<Longrightarrow> e = FromRunning" for e
    by (simp add: state1) (simp add: ex_defs eval_defs)
  from update_print_job_transitions
         [of "UpdatePrintJobStatus ''j1'' ''Queued''" ?s "job1\<lparr>Status := ''Running''\<rparr>"]
       update_print_job_transitions
         [of "UpdatePrintJobStatus ''j1'' ''Canceled''" ?s "job1\<lparr>Status := ''Running''\<rparr>"]
       state1_lookups(3) bad
  show ?thesis
    by (auto simp: UpdatePrintJobStatus_def job1_def)
qed

text \<open>
  Claim C4: when a Running job of weight \<open>w\<close> that references an existing filament of
  remaining weight \<open>r\<close> is set to Done, \<open>Apply\<close> returns \<open>nil\<close> and the filament's
  remaining weight becomes \<open>r - w\<close>, or 0 when \<open>r - w\<close> is negative; it is never
  negative; where \<open>r - w\<close> does not overflow it is \<open>max (r - w) 0\<close> on the
  integers; every other filament is unchanged. An \<open>UpdatePrintJob\<close> command that is
  not such a Running to Done step leaves the filament map as it was.
\<close>

theorem done_decrements_filament:
  assumes "Command.Type cmd = UpdatePrintJob"
  shows "(\<forall>job fl. DAList.lookup (printJobs f) (JobID cmd) = Some job \<and> Status job = ''Running'' \<and>
            NewStatus cmd = ''Done'' \<and> DAList.lookup (filaments f) (FilamentID job) = Some fl \<longrightarrow>
            snd (Apply f (Inr cmd)) = None \<and>
            DAList.lookup (filaments (fst (Apply f (Inr cmd)))) (FilamentID job)
              = Some (fl\<lparr>RemainingWeightInGrams :=
                   (if RemainingWeightInGrams fl - PrintWeightInGrams job <s 0 then 0
                    else RemainingWeightInGrams fl - PrintWeightInGrams job)\<rparr>) \<and>
            0 \<le>s (if RemainingWeightInGrams fl - PrintWeightInGrams job <s 0 then 0
                    else RemainingWeightInGrams fl - PrintWeightInGrams job) \<and>
            (- (2 ^ 63) \<le> sint (RemainingWeightInGrams fl) - sint (PrintWeightInGrams job) \<and>
             sint (RemainingWeightInGrams fl) - sint (PrintWeightInGrams job) < 2 ^ 63 \<longrightarrow>
               sint (if RemainingWeightInGrams fl - PrintWeightInGrams job <s 0 then 0
                     else RemainingWeightInGrams fl - PrintWeightInGrams job)
                 = max (sint (RemainingWeightInGrams fl) - sint (PrintWeightInGrams job)) 0) \<and>
            (\<forall>k. k \<noteq> FilamentID job \<longrightarrow>
               DAList.lookup (filaments (fst (Apply f (Inr cmd)))) k = DAList.lookup (filaments f) k))
       \<and> (\<not> (\<exists>job. DAList.lookup (printJobs f) (JobID cmd) = Some job \<and> Status job = ''Running'' \<and>
                 NewStatus cmd = ''Done'') \<longrightarrow>
            filaments (fst (Apply f (Inr cmd))) = filaments f)"
proof -
  have clamp: "0 \<le>s (if r - w <s 0 then 0 else r - w)" for r w :: go_int
    by (simp add: word_sle_eq word_sless_alt)
  have exact: "sint (if r - w <s 0 then 0 else r - w) = max (sint r - sint w) 0"
    if "- (2 ^ 63) \<le> sint r - sint w" "sint r - sint w < 2 ^ 63" for r w :: go_int
    using sint_minus_exact [OF that] by (simp add: word_sless_alt max_def)
  show ?thesis
    using clamp exact
    by (auto simp: Apply_UpdatePrintJob [OF assms] ValidateStatusChange_def
             split: option.splits if_splits)
qed

theorem done_decrements_filament_witness:
  "snd (Apply (applyAll NewFSM history1) (Inr (UpdatePrintJobStatus ''j1'' ''Done''))) = None \<and>
   DAList.lookup
     (filaments (fst (Apply (applyAll NewFSM history1) (Inr (UpdatePrintJobStatus ''j1'' ''Done'')))))
     ''f1'' = Some (filament1\<lparr>RemainingWeightInGrams := 600\<rparr>) \<and>
   sint (600 :: go_int) = max (sint (1000 :: go_int) - sint (400 :: go_int)) 0 \<and>
   DAList.lookup
     (filaments (fst (Apply (applyAll NewFSM (history1 @ [Inr (CreateFilament filament1_low)]))
        (Inr (UpdatePrintJobStatus ''j1'' ''Done'')))))
     ''f1'' = Some (filament1\<lparr>RemainingWeightInGrams := 0\<rparr>) \<and>
   filaments (fst (Apply (applyAll NewFSM history1) (Inr (UpdatePrintJobStatus ''j1'' ''Canceled''))))
     = filaments (applyAll NewFSM history1)"
proof -
  let ?s = "applyAll NewFSM history1"
  let ?s' = "applyAll NewFSM (history1 @ [Inr (CreateFilament filament1_low)])"
  have sub: "\<not> (1000 - 400 :: go_int) <s 0" "(1000 - 400 :: go_int) = 600"
    "(100 - 400 :: go_int) <s 0"
    by (simp_all add: word_sless_alt)
  have low: "DAList.lookup (printJobs ?s') ''j1'' = Some (job1\<lparr>Status := ''Running''\<rparr>)"
    "DAList.lookup (filaments ?s') ''f1'' = Some filament1_low"
    by (simp_all add: state1_low)
  from done_decrements_filament [of "UpdatePrintJobStatus ''j1'' ''Done''" ?s]
       done_decrements_filament [of "UpdatePrintJobStatus ''j1'' ''Done''" ?s']
       done_decrements_filament [of "UpdatePrintJobStatus ''j1'' ''Canceled''" ?s]
       state1_lookups low sub
  show ?thesis
    by (simp add: UpdatePrintJobStatus_def job1_def filament1_def filament1_low_def)
qed

text \<open>
  Claim C5: an \<open>AddPrintJob\<close> command whose printer id is not in the printer map
  gets the unknown-printer error, one whose printer exists but whose filament id is
  not in the filament map gets the unknown-filament error, and in both cases the
  state is unchanged. So whenever \<open>Apply\<close> accepts the command, the printer and the
  filament of the job exist.
\<close>

theorem add_print_job_unknown_parent:
  assumes "Command.Type cmd = AddPrintJob" and "Command.PrintJob cmd = Some pj"
  shows "(DAList.lookup (printers f) (PrinterID pj) = None \<longrightarrow>
            Apply f (Inr cmd) = (f, Some (NoSuchPrinter (PrinterID pj))))
       \<and> (DAList.lookup (printers f) (PrinterID pj) \<noteq> None \<and>
          DAList.lookup (filaments f) (FilamentID pj) = None \<longrightarrow>
            Apply f (Inr cmd) = (f, Some (NoSuchFilament (FilamentID pj))))
       \<and> (snd (Apply f (Inr cmd)) = None \<longrightarrow>
            DAList.lookup (printers (fst (Apply f (Inr cmd)))) (PrinterID pj) \<noteq> None \<and>
            DAList.lookup (filaments (fst (Apply f (Inr cmd)))) (FilamentID pj) \<noteq> None)"
  by (auto simp: Apply_AddPrintJob [OF assms] split: option.splits if_splits)

theorem add_print_job_unknown_parent_witness:
  "Apply NewFSM (Inr (CreatePrintJob job1)) = (NewFSM, Some (NoSuchPrinter ''p1'')) \<and>
   Apply (applyAll NewFSM [Inr (CreatePrinter printer1)]) (Inr (CreatePrintJob job1))
     = (applyAll NewFSM [Inr (CreatePrinter printer1)], Some (NoSuchFilament ''f1'')) \<and>
   snd (Apply (applyAll NewFSM history1) (Inr (rawAddPrintJob job3))) = None \<and>
   DAList.lookup (printers (fst (Apply (applyAll NewFSM history1) (Inr (rawAddPrintJob job3))))) ''p1''
     \<noteq> None \<and>
   DAList.lookup (filaments (fst (Apply (applyAll NewFSM history1) (Inr (rawAddPrintJob job3))))) ''f1''
     \<noteq> None"
proof -
  let ?s0 = "NewFSM" and ?s1 = "applyAll NewFSM [Inr (CreatePrinter printer1)]"
    and ?s2 = "applyAll NewFSM history1"
  have l0: "DAList.lookup (printers ?s0) ''p1'' = None"
    and l1: "DAList.lookup (printers ?s1) ''p1'' \<noteq> None" "DAList.lookup (filaments ?s1) ''f1'' = None"
    and ok: "snd (Apply ?s2 (Inr (rawAddPrintJob job3))) = None"
    by (simp_all add: ex_defs2 eval_defs)
  from add_print_job_unknown_parent [of "CreatePrintJob job1" "job1\<lparr>Status := ''Queued''\<rparr>" ?s0]
       add_print_job_unknown_parent [of "CreatePrintJob job1" "job1\<lparr>Status := ''Queued''\<rparr>" ?s1]
       add_print_job_unknown_parent [of "rawAddPrintJob job3" job3 ?s2]
       l0 l1 ok
  show ?thesis
    by (simp add: CreatePrintJob_def rawAddPrintJob_def job1_def job3_def)
qed

text \<open>
  Claim C6: for every \<open>AddPrintJob\<close> command that \<open>Apply\<close> accepts, the job stored
  under its id is the payload with status Queued, whatever status the payload had.
\<close>

theorem add_print_job_status_queued:
  assumes "Command.Type cmd = AddPrintJob" and "Command.PrintJob cmd = Some pj"
    and "snd (Apply f (Inr cmd)) = None"
  shows "DAList.lookup (printJobs (fst (Apply f (Inr cmd)))) (PrintJob.ID pj)
           = Some (pj\<lparr>Status := ''Queued''\<rparr>)"
  using assms(3) by (auto simp: Apply_AddPrintJob [OF assms(1,2)] split: option.splits if_splits)

theorem add_print_job_status_queued_witness:
  "Status job3 = ''Done'' \<and>
   snd (Apply (applyAll NewFSM history1) (Inr (rawAddPrintJob job3))) = None \<and>
   map_option Status
     (DAList.lookup (printJobs (fst (Apply (applyAll NewFSM history1) (Inr (rawAddPrintJob job3)))))
        ''j3'') = Some ''Queued''"
proof -
  have ok: "snd (Apply (applyAll NewFSM history1) (Inr (rawAddPrintJob job3))) = None"
    by (simp add: ex_defs2 eval_defs)
  from add_print_job_status_queued [of "rawAddPrintJob job3" job3 "applyAll NewFSM history1"] ok
  show ?thesis
    by (simp add: rawAddPrintJob_def job3_def)
qed

text \<open>
  Claim C9: there is a state with a Running job whose filament id is not in the
  filament map; in every such state, \<open>UpdatePrintJob\<close> to Done returns the
  unknown-filament error and yet the stored job is Done afterwards. When the
  filament of every stored job is in the filament map, \<open>UpdatePrintJob\<close> never
  returns that error.
\<close>

theorem update_done_not_atomic:
  "(\<exists>(f :: FSM) (cmd :: Command) (job :: PrintJob). Command.Type cmd = UpdatePrintJob \<and> NewStatus cmd = ''Done'' \<and>
      DAList.lookup (printJobs f) (JobID cmd) = Some job \<and> Status job = ''Running'' \<and>
      DAList.lookup (filaments f) (FilamentID job) = None)
   \<and> (\<forall>f cmd. Command.Type cmd = UpdatePrintJob \<longrightarrow>
        (\<forall>job. DAList.lookup (printJobs f) (JobID cmd) = Some job \<and> Status job = ''Running'' \<and>
            NewStatus cmd = ''Done'' \<and> DAList.lookup (filaments f) (FilamentID job) = None \<longrightarrow>
            snd (Apply f (Inr cmd)) = Some (NoSuchFilament (FilamentID job)) \<and>
            DAList.lookup (printJobs (fst (Apply f (Inr cmd)))) (JobID cmd)
              = Some (job\<lparr>Status := ''Done''\<rparr>))
        \<and> ((\<forall>k job. DAList.lookup (printJobs f) k = Some job \<longrightarrow>
               DAList.lookup (filaments f) (FilamentID job) \<noteq> None) \<longrightarrow>
            (\<forall>i. snd (Apply f (Inr cmd)) \<noteq> Some (NoSuchFilament i))))"
proof -
  have some: "\<exists>(f :: FSM) (cmd :: Command) (job :: PrintJob). Command.Type cmd = UpdatePrintJob \<and> NewStatus cmd = ''Done'' \<and>
      DAList.lookup (printJobs f) (JobID cmd) = Some job \<and> Status job = ''Running'' \<and>
      DAList.lookup (filaments f) (FilamentID job) = None"
    apply (rule exI [where x = orphan_state])
    apply (rule exI [where x = "UpdatePrintJobStatus ''j9'' ''Done''"])
    apply (rule exI [where x = orphan_job])
    apply (simp add: orphan_state_def orphan_job_def UpdatePrintJobStatus_def)
    done
  have every: "(\<forall>job. DAList.lookup (printJobs f) (JobID cmd) = Some job \<and> Status job = ''Running'' \<and>
            NewStatus cmd = ''Done'' \<and> DAList.lookup (filaments f) (FilamentID job) = None \<longrightarrow>
            snd (Apply f (Inr cmd)) = Some (NoSuchFilament (FilamentID job)) \<and>
            DAList.lookup (printJobs (fst (Apply f (Inr cmd)))) (JobID cmd)
              = Some (job\<lparr>Status := ''Done''\<rparr>))
        \<and> ((\<forall>k job. DAList.lookup (printJobs f) k = Some job \<longrightarrow>
               DAList.lookup (filaments f) (FilamentID job) \<noteq> None) \<longrightarrow>
            (\<forall>i. snd (Apply f (Inr cmd)) \<noteq> Some (NoSuchFilament i)))"
    if "Command.Type cmd = UpdatePrintJob" for f cmd
    by (auto simp: Apply_UpdatePrintJob [OF that] ValidateStatusChange_def
             split: option.splits if_splits)
  from some every show ?thesis by blast
qed

theorem update_done_not_atomic_witness:
  "snd (Apply orphan_state (Inr (UpdatePrintJobStatus ''j9'' ''Done''))) = Some (NoSuchFilament ''f9'') \<and>
   map_option Status (DAList.lookup (printJobs orphan_state) ''j9'') = Some ''Running'' \<and>
   map_option Status
     (DAList.lookup (printJobs (fst (Apply orphan_state (Inr (UpdatePrintJobStatus ''j9'' ''Done'')))))
        ''j9'') = Some ''Done'' \<and>
   snd (Apply (applyAll NewFSM history1) (Inr (UpdatePrintJobStatus ''j1'' ''Done'')))
     \<noteq> Some (NoSuchFilament ''f1'')"
proof -
  let ?s = "applyAll NewFSM history1"
  have integrity: "\<forall>k job. DAList.lookup (printJobs ?s) k = Some job \<longrightarrow>
      DAList.lookup (filaments ?s) (FilamentID job) \<noteq> None"
    by (auto simp: state1 DAList.lookup_update job1_def split: if_splits)
  have u: "Command.Type (UpdatePrintJobStatus j st) = UpdatePrintJob" for j st
    by (simp add: UpdatePrintJobStatus_def)
  from update_done_not_atomic have general:
    "(\<forall>job. DAList.lookup (printJobs f) (JobID cmd) = Some job \<and> Status job = ''Running'' \<and>
            NewStatus cmd = ''Done'' \<and> DAList.lookup (filaments f) (FilamentID job) = None \<longrightarrow>
            snd (Apply f (Inr cmd)) = Some (NoSuchFilament (FilamentID job)) \<and>
            DAList.lookup (printJobs (fst (Apply f (Inr cmd)))) (JobID cmd)
              = Some (job\<lparr>Status := ''Done''\<rparr>))
        \<and> ((\<forall>k job. DAList.lookup (printJobs f) k = Some job \<longrightarrow>
               DAList.lookup (filaments f) (FilamentID job) \<noteq> None) \<longrightarrow>
            (\<forall>i. snd (Apply f (Inr cmd)) \<noteq> Some (NoSuchFilament i)))"
    if "Command.Type cmd = UpdatePrintJob" for f cmd
    using that by blast
  from general [OF u, of orphan_state "''j9''" "''Done''"]
       general [OF u, of ?s "''j1''" "''Done''"] integrity
  show ?thesis
    by (simp add: UpdatePrintJobStatus_def orphan_state_def orphan_job_def)
qed

text \<open>
  Claim C10: after any sequence of \<open>Apply\<close> calls on the empty state (commands of
  any type and payload, entries that do not decode included), every stored job has
  one of the statuses Queued, Running, Done, Canceled.
\<close>

theorem stored_statuses_valid: "valid_statuses (applyAll NewFSM ds)"
  by (rule applyAll_valid_statuses) (simp add: valid_statuses_def NewFSM_def DAList.empty.rep_eq)

theorem stored_statuses_valid_witness:
  "DAList.impl_of (printJobs (applyAll NewFSM history1)) = [(''j1'', job1\<lparr>Status := ''Running''\<rparr>)] \<and>
   valid_statuses (applyAll NewFSM history1)"
  using stored_statuses_valid [of history1] by (simp add: state1 DAList.update.rep_eq DAList.empty.rep_eq)

section \<open>Snapshot and restore\<close>

lemma fsmSnapshot_unexported:
  "\<not> exported ''printers''" "\<not> exported ''filaments''" "\<not> exported ''printJobs''"
  by (simp_all add: exported_def)

lemma Persist_empty_object: "Persist c s = JObject []"
  by (simp add: Persist_def encode_struct_def fsmSnapshot_fields_def snapshot_fields_def
      fsmSnapshot_unexported)

lemma field_for_fsmSnapshot: "field_for (fsmSnapshot_fields c) key = None"
  by (simp add: field_for_def fsmSnapshot_fields_def snapshot_fields_def fsmSnapshot_unexported)

lemma decode_members_fsmSnapshot: "decode_members (fsmSnapshot_fields c) members s = Inr s"
  by (induction members arbitrary: s) (auto simp: field_for_fsmSnapshot)

lemma Restore_object:
  "Restore c f (Inr (JObject members))
     = (f\<lparr>printers := DAList.empty, filaments := DAList.empty, printJobs := DAList.empty\<rparr>, None)"
  by (simp add: Restore_def decode_struct_def decode_members_fsmSnapshot zero_fsmSnapshot_def)

lemma Restore_Persist_Snapshot:
  "Restore c f (Inr (Persist c (Snapshot g))) = (NewFSM, None)"
  by (simp add: Persist_empty_object Restore_object NewFSM_def)

text \<open>With exported field names the same two functions give the maps back, as long as
  the decoders read what the encoders write.\<close>

lemma exported_names_round_trip:
  assumes "\<And>m. decodePrinters c (encodePrinters c m) = Inr m"
    and "\<And>m. decodeFilaments c (encodeFilaments c m) = Inr m"
    and "\<And>m. decodePrintJobs c (encodePrintJobs c m) = Inr m"
  shows "Restore_as (''Printers'', ''Filaments'', ''PrintJobs'') c f
           (Inr (Persist_as (''Printers'', ''Filaments'', ''PrintJobs'') c (Snapshot g)))
         = (g, None)"
  using assms
  by (simp add: Restore_as_def Persist_as_def encode_struct_def decode_struct_def
      snapshot_fields_def exported_def field_for_def Snapshot_def)

text \<open>
  Claim C1 fails on the code. The fields of \<open>fsmSnapshot\<close> are not exported, so for
  every state \<open>Persist\<close> writes the empty object and \<open>Restore\<close> leaves three maps
  without entries. At the state with the one printer \<open>p1\<close>: the printer is stored,
  \<open>Persist\<close> writes \<open>{}\<close>, \<open>Restore\<close> of that document returns no error, and the
  printer is not in the restored state.
\<close>

theorem snapshot_restore_loses_printer:
  "DAList.lookup (printers (applyAll NewFSM [Inr (CreatePrinter printer1)])) ''p1'' = Some printer1 \<and>
   Persist c (Snapshot (applyAll NewFSM [Inr (CreatePrinter printer1)])) = JObject [] \<and>
   snd (Restore c NewFSM (Inr (Persist c (Snapshot (applyAll NewFSM [Inr (CreatePrinter printer1)])))))
     = None \<and>
   DAList.lookup
     (printers (fst (Restore c NewFSM
        (Inr (Persist c (Snapshot (applyAll NewFSM [Inr (CreatePrinter printer1)]))))))) ''p1'' = None"
proof -
  have before: "DAList.lookup (printers (applyAll NewFSM [Inr (CreatePrinter printer1)])) ''p1''
      = Some printer1"
    by (simp add: NewFSM_def Apply_def CreatePrinter_def printer1_def AddPrinter_def)
  from before show ?thesis
    by (simp add: Persist_empty_object Restore_object)
qed

section \<open>Forwarding to the leader\<close>

lemma scan_port_7001: "Sscanf_d ''7001'' [] = Inr 7001"
  by code_simp

lemma scan_port_700: "Sscanf_d '':700'' [] = Inl ''expected integer''"
  by code_simp

lemma fmt_8001: "fmt_d (sint (8000 + (7001 - 7000) :: go_int)) = ''8001''"
  by code_simp

text \<open>
  Claim C7 (amended): on a node that believes itself leader, \<open>ForwardToLeader\<close> returns
  \<open>(nil, nil)\<close> and no request is sent; on a node that is not the leader and knows
  no leader address it fails with the no-leader error and no request is sent. On a
  node that is not the leader and knows a leader address of at least four characters:
  if the last four characters do not scan as a decimal integer, it fails with the
  parse error and no request is sent; if they scan as \<open>port\<close> and net/http rejects the
  method or the URL, it fails with that error and no request is sent; if they scan as
  \<open>port\<close> and the request is built, exactly one request is sent, with the given method,
  to \<open>http://localhost:\<close> followed by \<open>8000 + (port - 7000)\<close> and the path.
\<close>

theorem forward_to_leader:
  "(Leader node \<longrightarrow> ForwardToLeader nw node method pth body = ([], Return None))
   \<and> (\<not> Leader node \<and> LeaderAddress node = [] \<longrightarrow>
        ForwardToLeader nw node method pth body = ([], Fail NoLeaderAvailable))
   \<and> (\<not> Leader node \<and> 4 \<le> length (LeaderAddress node) \<longrightarrow>
        (\<forall>err. Sscanf_d (drop (length (LeaderAddress node) - 4) (LeaderAddress node)) [] = Inl err \<longrightarrow>
           ForwardToLeader nw node method pth body = ([], Fail (ParseLeaderPort err)))
        \<and> (\<forall>port err.
             Sscanf_d (drop (length (LeaderAddress node) - 4) (LeaderAddress node)) [] = Inr port \<and>
             NewRequest nw method (''http://localhost:'' @ fmt_d (sint (8000 + (port - 7000))) @ pth)
               = Some err \<longrightarrow>
             ForwardToLeader nw node method pth body = ([], Fail (NewRequestError err)))
        \<and> (\<forall>port.
             Sscanf_d (drop (length (LeaderAddress node) - 4) (LeaderAddress node)) [] = Inr port \<and>
             NewRequest nw method (''http://localhost:'' @ fmt_d (sint (8000 + (port - 7000))) @ pth)
               = None \<longrightarrow>
             (\<exists>req. fst (ForwardToLeader nw node method pth body) = [req] \<and> Method req = method \<and>
                URL req = ''http://localhost:'' @ fmt_d (sint (8000 + (port - 7000))) @ pth)))"
  by (auto simp: ForwardToLeader_def Let_def split: sum.splits option.splits)

theorem forward_to_leader_witness:
  "ForwardToLeader quiet_net leader_node ''POST'' ''/join'' None = ([], Return None) \<and>
   ForwardToLeader quiet_net (follower []) ''POST'' ''/join'' None = ([], Fail NoLeaderAvailable) \<and>
   ForwardToLeader quiet_net (follower ''localhost:700'') ''POST'' ''/join'' None
     = ([], Fail (ParseLeaderPort ''expected integer'')) \<and>
   ForwardToLeader picky_net (follower ''localhost:7001'') ''BAD METHOD'' ''/join'' None
     = ([], Fail (NewRequestError ''net/http: invalid method'')) \<and>
   (\<exists>req. fst (ForwardToLeader quiet_net (follower ''localhost:7001'') ''POST'' ''/join'' None) = [req] \<and>
      Method req = ''POST'' \<and> URL req = ''http://localhost:8001/join'')"
proof -
  from forward_to_leader [of leader_node quiet_net "''POST''" "''/join''" None]
       forward_to_leader [of "follower []" quiet_net "''POST''" "''/join''" None]
       forward_to_leader [of "follower ''localhost:700''" quiet_net "''POST''" "''/join''" None]
       forward_to_leader [of "follower ''localhost:7001''" picky_net "''BAD METHOD''" "''/join''" None]
       forward_to_leader [of "follower ''localhost:7001''" quiet_net "''POST''" "''/join''" None]
       scan_port_7001 scan_port_700 fmt_8001
  show ?thesis
    by (simp add: follower_def leader_node_def quiet_net_def picky_net_def)
qed

text \<open>
  Claim C7, as stated, fails for the leader address \<open>localhost:700\<close>: the node is not
  the leader, a leader address is known, and the call ends with the parse error
  without a request.
\<close>

theorem forward_to_leader_unparsed_port:
  "\<not> Leader (follower ''localhost:700'') \<and>
   LeaderAddress (follower ''localhost:700'') = ''localhost:700'' \<and>
   ForwardToLeader quiet_net (follower ''localhost:700'') ''POST'' ''/join'' None
     = ([], Fail (ParseLeaderPort ''expected integer''))"
  using scan_port_700 by (simp add: ForwardToLeader_def follower_def)

section \<open>Printing and scanning decimal numbers\<close>

lemma digit_char_int:
  assumes "0 \<le> d" "d < 10"
  shows "(of_char (digit_char d) :: int) = 48 + d"
  using assms by (simp add: digit_char_def of_char_of)

lemma digit_char_nat:
  assumes "0 \<le> d" "d < 10"
  shows "(of_char (digit_char d) :: nat) = nat (48 + d)"
proof -
  have "int (of_char (digit_char d)) = 48 + d"
    using digit_char_int [OF assms] by (simp add: of_nat_of_char)
  then show ?thesis by linarith
qed

lemma digit_char_is_digit: "0 \<le> d \<Longrightarrow> d < 10 \<Longrightarrow> is_digit (digit_char d)"
  by (simp add: is_digit_def digit_char_nat; linarith)

lemma digit_char_val: "0 \<le> d \<Longrightarrow> d < 10 \<Longrightarrow> digit_val (digit_char d) = d"
  by (simp add: digit_val_def digit_char_int)

lemma is_digit_not_special:
  assumes "is_digit c"
  shows "c \<noteq> CHR ''/''" "c \<noteq> CHR 0x00" "c \<noteq> CHR ''+''" "c \<noteq> CHR ''-''" "c \<noteq> CHR ''.''"
    "c \<noteq> CHR 0x0D" "c \<noteq> CHR 0x0A" "c \<noteq> CHR ''_''"
  using assms by (auto simp: is_digit_def)

lemma is_digit_no_space: "is_digit c \<Longrightarrow> space_width (c # cs) = 0"
  by (auto simp: is_digit_def space_width_def)

lemma digits_all: "0 \<le> n \<Longrightarrow> list_all is_digit (digits n)"
proof (induction n rule: digits.induct)
  case (1 n)
  show ?case
  proof (cases "n < 10")
    case True
    with 1 show ?thesis by (subst digits.simps) (simp add: digit_char_is_digit)
  next
    case False
    with 1 have "list_all is_digit (digits (n div 10))" by simp
    moreover have "is_digit (digit_char (n mod 10))"
      by (rule digit_char_is_digit) simp_all
    ultimately show ?thesis using False by (subst digits.simps) simp
  qed
qed

lemma digits_nonempty: "digits n \<noteq> []"
  by (subst digits.simps) simp

lemma decimal_snoc: "decimal (ds @ [c]) = 10 * decimal ds + digit_val c"
  by (simp add: decimal_def)

lemma decimal_digits: "0 \<le> n \<Longrightarrow> decimal (digits n) = n"
proof (induction n rule: digits.induct)
  case (1 n)
  show ?case
  proof (cases "n < 10")
    case True
    with 1 show ?thesis
      by (subst digits.simps) (simp add: decimal_def digit_char_val)
  next
    case False
    with 1 have "decimal (digits (n div 10)) = n div 10" by simp
    moreover have "digit_val (digit_char (n mod 10)) = n mod 10"
      by (rule digit_char_val) simp_all
    ultimately show ?thesis using False
      by (subst digits.simps) (simp add: decimal_snoc)
  qed
qed

lemma digits_length: "0 \<le> n \<Longrightarrow> n < 10 ^ k \<Longrightarrow> 0 < k \<Longrightarrow> length (digits n) \<le> k"
proof (induction k arbitrary: n)
  case 0
  then show ?case by simp
next
  case (Suc k)
  show ?case
  proof (cases "n < 10")
    case True
    then show ?thesis by (subst digits.simps) simp
  next
    case False
    with Suc.prems have k: "0 < k" by (cases k) auto
    from Suc.prems have "n div 10 < 10 ^ k" by (simp add: div_less_iff_less_mult mult.commute) 
    with Suc.IH [of "n div 10"] Suc.prems k have "length (digits (n div 10)) \<le> k" by simp
    with False show ?thesis by (subst digits.simps) simp
  qed
qed

lemma SkipSpace_digits: "0 \<le> n \<Longrightarrow> SkipSpace (digits n) = Inr (digits n)"
proof -
  assume n: "0 \<le> n"
  obtain c cs where d: "digits n = c # cs" using digits_nonempty [of n] by (cases "digits n") auto
  with digits_all [OF n] have c: "is_digit c" by simp
  show ?thesis
    unfolding d using is_digit_not_special [OF c] is_digit_no_space [OF c]
    by (subst SkipSpace.simps) simp
qed

lemma takeWhile_digits:
  "0 \<le> n \<Longrightarrow> takeWhile (\<lambda>c. is_digit c \<or> c = CHR ''_'') (digits n) = digits n"
  using digits_all [of n] by (simp add: list_all_iff takeWhile_eq_all_conv)

lemma digits_no_sign: "0 \<le> n \<Longrightarrow> take 1 (digits n) \<noteq> ''+'' \<and> take 1 (digits n) \<noteq> ''-''"
proof -
  assume n: "0 \<le> n"
  obtain c cs where d: "digits n = c # cs" using digits_nonempty [of n] by (cases "digits n") auto
  with digits_all [OF n] have c: "is_digit c" by simp
  show ?thesis unfolding d using is_digit_not_special [OF c] by simp
qed

lemma scan_d_digits:
  assumes "0 \<le> n" "n < 2 ^ 63"
  shows "scan_d (digits n) = Inr (word_of_int n)"
  using assms digits_no_sign [OF assms(1)] digits_nonempty [of n] digits_all [OF assms(1)]
  by (simp add: scan_d_def SkipSpace_digits takeWhile_digits ParseInt_def Let_def decimal_digits)

lemma Sscanf_snapshot_name:
  assumes "0 <s t"
  shows "Sscanf_d (snapshot_name t) ''snapshot-'' = Inr t"
proof -
  from assms have pos: "0 < sint t" by (simp add: word_sless_alt)
  have "sint t < 2 ^ 63" using sint_lt [of t] by simp
  with pos have "scan_d (digits (sint t)) = Inr (word_of_int (sint t))"
    by (intro scan_d_digits) simp_all
  with pos show ?thesis
    by (simp add: Sscanf_d_def snapshot_name_def fmt_d_def)
qed


lemma snapshot_name_shape:
  assumes "0 <s t"
  shows "9 < length (snapshot_name t)" and "take 9 (snapshot_name t) = ''snapshot-''"
    and "snapshot_name t \<noteq> []" and "plain_name (snapshot_name t)"
proof -
  from assms have pos: "0 \<le> sint t" "\<not> sint t < 0" by (simp_all add: word_sless_alt)
  have name: "snapshot_name t = ''snapshot-'' @ digits (sint t)"
    using pos by (simp add: snapshot_name_def fmt_d_def)
  show "9 < length (snapshot_name t)"
    using digits_nonempty [of "sint t"] by (cases "digits (sint t)") (simp_all add: name)
  show "take 9 (snapshot_name t) = ''snapshot-''" by (simp add: name)
  show "snapshot_name t \<noteq> []" by (simp add: name)
  have "sint t < 2 ^ 63" using sint_lt [of t] by simp
  then have "sint t < 10 ^ 19" by simp
  with pos have len: "length (digits (sint t)) \<le> 19"
    by (intro digits_length) simp_all
  have "\<forall>c\<in>set (digits (sint t)). is_digit c"
    using digits_all [OF pos(1)] by (simp add: list_all_iff)
  then have "CHR ''/'' \<notin> set (digits (sint t))" "CHR 0x00 \<notin> set (digits (sint t))"
    using is_digit_not_special by blast+
  with len show "plain_name (snapshot_name t)"
    by (simp add: plain_name_def name)
qed

lemma snapshot_name_inj:
  assumes "0 <s t" "0 <s u" "snapshot_name t = snapshot_name u"
  shows "t = u"
  using Sscanf_snapshot_name [OF assms(1)] Sscanf_snapshot_name [OF assms(2)] assms(3)
  by (metis sum.inject(2))

section \<open>The store: lemmas\<close>

lemma latest_step_snapshot:
  assumes "0 <s t"
  shows "latest_step (snapshot_name t, File x) (n, lt)
           = (if lt <s t then (snapshot_name t, t) else (n, lt))"
  using snapshot_name_shape [OF assms] Sscanf_snapshot_name [OF assms]
  by (simp add: latest_step_def IsDir_def)

lemma fold_latest_keep:
  assumes "\<forall>(name, e)\<in>set xs. \<exists>t x. name = snapshot_name t \<and> e = File x \<and> 0 <s t \<and> t \<le>s lt"
  shows "fold latest_step xs (n, lt) = (n, lt)"
  using assms
proof (induction xs)
  case Nil
  then show ?case by simp
next
  case (Cons p xs)
  from Cons.prems obtain t x where p: "p = (snapshot_name t, File x)" "0 <s t" "t \<le>s lt"
    by (cases p) auto
  then have "latest_step p (n, lt) = (n, lt)"
    by (simp add: latest_step_snapshot word_sless_alt word_sle_eq)
  with Cons show ?case by simp
qed

lemma fold_latest_max:
  assumes "\<forall>(name, e)\<in>set xs. \<exists>t x. name = snapshot_name t \<and> e = File x \<and> 0 <s t \<and> t \<le>s tm"
    and "(snapshot_name tm, ent) \<in> set xs" and "0 <s tm" and "lt <s tm"
  shows "fold latest_step xs (n, lt) = (snapshot_name tm, tm)"
  using assms
proof (induction xs arbitrary: n lt)
  case Nil
  then show ?case by simp
next
  case (Cons p xs)
  from Cons.prems(1) obtain t x where p: "p = (snapshot_name t, File x)" "0 <s t" "t \<le>s tm"
    by (cases p) auto
  from Cons.prems(1) have rest:
    "\<forall>(name, e)\<in>set xs. \<exists>t x. name = snapshot_name t \<and> e = File x \<and> 0 <s t \<and> t \<le>s tm"
    by simp
  show ?case
  proof (cases "t = tm")
    case True
    with p Cons.prems(4) have "latest_step p (n, lt) = (snapshot_name tm, tm)"
      by (simp add: latest_step_snapshot)
    with fold_latest_keep [OF rest] show ?thesis by simp
  next
    case False
    with p(3) have lt_tm: "t <s tm"
      by (simp add: signed.less_le)
    from False p Cons.prems(2,3) have mem: "(snapshot_name tm, ent) \<in> set xs"
      by (auto dest: snapshot_name_inj)
    obtain n' lt' where step: "latest_step p (n, lt) = (n', lt')" by (cases "latest_step p (n, lt)")
    with p lt_tm Cons.prems(4) have "lt' <s tm"
      by (auto simp: latest_step_snapshot split: if_splits)
    from Cons.IH [OF rest mem Cons.prems(3) this] step show ?thesis by simp
  qed
qed

lemma storeAll_snoc:
  "storeAll s d (calls @ [(t, x)])
     = (fst (StoreSnapshot (fst (storeAll s d calls)) (snd (storeAll s d calls)) t x),
        fst (snd (StoreSnapshot (fst (storeAll s d calls)) (snd (storeAll s d calls)) t x)))"
  by (induction calls arbitrary: s d) (auto split: prod.splits)

lemma storeAll_path: "path (fst (storeAll s d calls)) = path s"
  by (induction calls arbitrary: s d)
     (auto simp: StoreSnapshot_def split: prod.splits if_splits)

lemma StoreSnapshot_file:
  assumes "path s \<noteq> []" and "0 <s t" and "\<forall>name. DAList.lookup d name \<noteq> Some Dir"
  shows "StoreSnapshot s d t x = (s, DAList.update (snapshot_name t) (File x) d, None)"
  using assms snapshot_name_shape(4) [OF assms(2)]
  by (auto simp: StoreSnapshot_def WriteFile_def split: option.splits dirent.splits)

lemma storeAll_file_entries:
  assumes "path s \<noteq> []" and "list_all (\<lambda>t. 0 <s t) (map fst calls)"
    and "\<forall>name e. DAList.lookup d name = Some e \<longrightarrow>
           (\<exists>t x. t \<in> T \<and> name = snapshot_name t \<and> e = File x)"
  shows "\<forall>name e. DAList.lookup (snd (storeAll s d calls)) name = Some e \<longrightarrow>
           (\<exists>t x. t \<in> T \<union> set (map fst calls) \<and> name = snapshot_name t \<and> e = File x)"
  using assms
proof (induction calls arbitrary: s d T)
  case Nil
  then show ?case by simp
next
  case (Cons c calls)
  obtain t x where c: "c = (t, x)" by (cases c)
  with Cons.prems(2) have t: "0 <s t" and rest: "list_all (\<lambda>t. 0 <s t) (map fst calls)" by simp_all
  from Cons.prems(3) have nodir: "\<forall>name. DAList.lookup d name \<noteq> Some Dir" by fastforce
  have step: "StoreSnapshot s d t x = (s, DAList.update (snapshot_name t) (File x) d, None)"
    by (rule StoreSnapshot_file [OF Cons.prems(1) t nodir])
  have inv: "\<forall>name e. DAList.lookup (DAList.update (snapshot_name t) (File x) d) name = Some e \<longrightarrow>
           (\<exists>t' x'. t' \<in> insert t T \<and> name = snapshot_name t' \<and> e = File x')"
  proof (intro allI impI)
    fix name e
    assume l: "DAList.lookup (DAList.update (snapshot_name t) (File x) d) name = Some e"
    show "\<exists>t' x'. t' \<in> insert t T \<and> name = snapshot_name t' \<and> e = File x'"
    proof (cases "name = snapshot_name t")
      case True
      with l have "e = File x" by simp
      with True show ?thesis by blast
    next
      case False
      with l have "DAList.lookup d name = Some e" by (simp add: DAList.lookup_update)
      with Cons.prems(3) obtain t' x' where "t' \<in> T" "name = snapshot_name t'" "e = File x'"
        by blast
      then show ?thesis by blast
    qed
  qed
  from Cons.IH [OF Cons.prems(1) rest inv] show ?case
    by (simp add: c step)
qed


lemma entry_lookup: "(k, v) \<in> set (DAList.impl_of m) \<longleftrightarrow> DAList.lookup m k = Some v"
  by (simp add: DAList.lookup.rep_eq)

lemma steady_clock_snoc:
  assumes "steady_clock (map fst (calls @ [(tm, xm)]))"
  shows "0 <s tm" and "list_all (\<lambda>t. 0 <s t) (map fst calls)"
    and "\<forall>t\<in>set (map fst calls). t \<le>s tm"
  using assms by (auto simp: steady_clock_def sorted_wrt_append list_all_iff)

lemma LoadSnapshot_memory:
  assumes "path s = []"
  shows "LoadSnapshot (fst (storeAll s d (calls @ [(tm, xm)]))) (snd (storeAll s d (calls @ [(tm, xm)])))
           = Inr xm"
proof -
  have "path (fst (storeAll s d calls)) = []" using assms by (simp add: storeAll_path)
  then show ?thesis
    by (simp add: storeAll_snoc StoreSnapshot_def LoadSnapshot_def)
qed

lemma LoadSnapshot_file:
  assumes "path s \<noteq> []" and "steady_clock (map fst (calls @ [(tm, xm)]))"
  shows "LoadSnapshot (fst (storeAll s DAList.empty (calls @ [(tm, xm)])))
           (snd (storeAll s DAList.empty (calls @ [(tm, xm)]))) = Inr xm"
proof -
  note clock = steady_clock_snoc [OF assms(2)]
  let ?s1 = "fst (storeAll s DAList.empty calls)" and ?d1 = "snd (storeAll s DAList.empty calls)"
  let ?d2 = "DAList.update (snapshot_name tm) (File xm) ?d1"
  have p1: "path ?s1 \<noteq> []" using assms(1) by (simp add: storeAll_path)
  have e1: "\<forall>name e. DAList.lookup ?d1 name = Some e \<longrightarrow>
      (\<exists>t x. t \<in> {} \<union> set (map fst calls) \<and> name = snapshot_name t \<and> e = File x)"
    by (rule storeAll_file_entries [OF assms(1) clock(2)]) simp
  then have nodir: "\<forall>name. DAList.lookup ?d1 name \<noteq> Some Dir" by fastforce
  have last: "storeAll s DAList.empty (calls @ [(tm, xm)]) = (?s1, ?d2)"
    by (simp add: storeAll_snoc StoreSnapshot_file [OF p1 clock(1) nodir])
  have entries: "\<forall>(name, e)\<in>set (ReadDir ?d2).
      \<exists>t x. name = snapshot_name t \<and> e = File x \<and> 0 <s t \<and> t \<le>s tm"
  proof (clarsimp simp: ReadDir_def entry_lookup)
    fix name e
    assume l: "DAList.lookup ?d2 name = Some e"
    show "\<exists>t. name = snapshot_name t \<and> (\<exists>x. e = File x) \<and> 0 <s t \<and> t \<le>s tm"
    proof (cases "name = snapshot_name tm")
      case True
      with l clock(1) show ?thesis by auto
    next
      case False
      with l have "DAList.lookup ?d1 name = Some e" by (simp add: DAList.lookup_update)
      with e1 obtain t x where t: "t \<in> set (map fst calls)" "name = snapshot_name t" "e = File x"
        by blast
      with clock(2,3) show ?thesis by (auto simp: list_all_iff)
    qed
  qed
  have mem: "(snapshot_name tm, File xm) \<in> set (ReadDir ?d2)"
    by (simp add: ReadDir_def entry_lookup)
  have "fold latest_step (ReadDir ?d2) ([], 0) = (snapshot_name tm, tm)"
    by (rule fold_latest_max [OF entries mem clock(1) clock(1)])
  then show ?thesis
    using p1 snapshot_name_shape [OF clock(1)]
    by (simp add: last LoadSnapshot_def ReadFile_def)
qed

text \<open>
  Claim C8 (amended): \<open>Get\<close> on a key under which the store holds nothing (no entry
  of the in-memory map; in file mode a plain file name with no entry in the directory)
  fails in both modes with an error that \<open>os.IsNotExist\<close> accepts: \<open>os.ErrNotExist\<close>
  in memory, the path error of \<open>open\<close> with \<open>ENOENT\<close> on files. Starting from an
  empty store, after any non-empty sequence of \<open>StoreSnapshot\<close> calls whose clock
  readings are positive and never go back, \<open>LoadSnapshot\<close> returns the snapshot stored
  last, in memory mode (empty path) and in file mode (any other path).
\<close>

theorem store_modes:
  "(path s = [] \<and> DAList.lookup (inMemory s) key = None \<longrightarrow> Store_Get s d key = Inl ErrNotExist)
   \<and> (path s \<noteq> [] \<and> plain_name key \<and> DAList.lookup d key = None \<longrightarrow>
        Store_Get s d key = Inl (PathError ''open'' (Join (path s) key) ENOENT))
   \<and> IsNotExist ErrNotExist \<and> IsNotExist (PathError ''open'' (Join (path s) key) ENOENT)
   \<and> (calls \<noteq> [] \<and> steady_clock (map fst calls) \<longrightarrow>
        LoadSnapshot (fst (storeAll (NewStore p) DAList.empty calls))
          (snd (storeAll (NewStore p) DAList.empty calls)) = Inr (snd (last calls)))"
proof -
  have load: "LoadSnapshot (fst (storeAll (NewStore p) DAList.empty calls))
          (snd (storeAll (NewStore p) DAList.empty calls)) = Inr (snd (last calls))"
    if "calls \<noteq> []" "steady_clock (map fst calls)"
  proof -
    from that(1) obtain cs tm xm where calls: "calls = cs @ [(tm, xm)]"
      by (cases calls rule: rev_cases) auto
    show ?thesis
    proof (cases "p = []")
      case True
      then show ?thesis
        unfolding calls by (simp add: LoadSnapshot_memory NewStore_def)
    next
      case False
      then have "path (NewStore p) \<noteq> []" by (simp add: NewStore_def)
      from LoadSnapshot_file [OF this] that(2) show ?thesis
        unfolding calls by simp
    qed
  qed
  then show ?thesis
    by (simp add: Store_Get_def ReadFile_def)
qed


theorem store_modes_witness:
  "Store_Get (NewStore []) DAList.empty ''raft_state'' = Inl ErrNotExist \<and>
   Store_Get (NewStore ''data/node1/store'') DAList.empty ''raft_state''
     = Inl (PathError ''open'' ''data/node1/store/raft_state'' ENOENT) \<and>
   IsNotExist (PathError ''open'' ''data/node1/store/raft_state'' ENOENT) \<and>
   LoadSnapshot (fst (memory_store [(100, ''A''), (200, ''B''), (200, ''C'')]))
     (snd (memory_store [(100, ''A''), (200, ''B''), (200, ''C'')])) = Inr ''C'' \<and>
   LoadSnapshot (fst (file_store [(100, ''A''), (200, ''B''), (200, ''C'')]))
     (snd (file_store [(100, ''A''), (200, ''B''), (200, ''C'')])) = Inr ''C''"
proof -
  have clock: "steady_clock (map fst [(100, ''A''), (200, ''B''), (200 :: go_int, ''C'')])"
    by (simp add: steady_clock_def word_sless_alt word_sle_eq)
  have key: "plain_name ''raft_state''"
    by (simp add: plain_name_def)
  from store_modes [of "NewStore []" "''raft_state''" DAList.empty
         "[(100, ''A''), (200, ''B''), (200, ''C'')]" "[]"]
       store_modes [of "NewStore ''data/node1/store''" "''raft_state''" DAList.empty
         "[(100, ''A''), (200, ''B''), (200, ''C'')]" "''data/node1/store''"]
       clock key
  show ?thesis
    by (simp add: NewStore_def Join_def memory_store_def file_store_def)
qed

text \<open>
  Claim C8, as stated, fails twice. After one \<open>StoreSnapshot\<close> and no \<open>Set\<close>,
  \<open>Get\<close> on the key \<open>snapshot\<close> returns the snapshot in memory mode and a not-found
  error in file mode. After a snapshot stored at clock reading 200 and a second one
  stored at reading 100, \<open>LoadSnapshot\<close> returns the second in memory mode and the
  first in file mode.
\<close>

theorem store_modes_differ:
  "Store_Get (fst (memory_store [(100, ''A'')])) (snd (memory_store [(100, ''A'')])) ''snapshot''
     = Inr ''A'' \<and>
   Store_Get (fst (file_store [(100, ''A'')])) (snd (file_store [(100, ''A'')])) ''snapshot''
     = Inl (PathError ''open'' ''data/node1/store/snapshot'' ENOENT) \<and>
   LoadSnapshot (fst (memory_store [(200, ''A''), (100, ''B'')]))
     (snd (memory_store [(200, ''A''), (100, ''B'')])) = Inr ''B'' \<and>
   LoadSnapshot (fst (file_store [(200, ''A''), (100, ''B'')]))
     (snd (file_store [(200, ''A''), (100, ''B'')])) = Inr ''A''"
  by code_simp

end
